theory Spec2Isabelle
  imports Main "HOL-Library.AList"
begin

section \<open>Python strings\<close>

text \<open>
  Strings are character lists. \<open>lower\<close> is \<^verbatim>\<open>str.lower()\<close> on the ASCII
  letters (other characters are left as they are), \<open>replace_empty c s\<close> is
  \<^verbatim>\<open>s.replace(c, '')\<close> for a one-character \<open>c\<close>, \<open>contains s sub\<close> is
  \<^verbatim>\<open>sub in s\<close>, and \<open>endswith s suf\<close> is \<^verbatim>\<open>s.endswith(suf)\<close>.
\<close>

definition lower_char :: "char \<Rightarrow> char" where
  "lower_char c =
     (let n = (of_char c :: nat) in if 65 \<le> n \<and> n \<le> 90 then char_of (n + 32) else c)"

definition lower :: "string \<Rightarrow> string" where
  "lower s = map lower_char s"

definition replace_empty :: "char \<Rightarrow> string \<Rightarrow> string" where
  "replace_empty c s = filter (\<lambda>x. x \<noteq> c) s"

fun startswith :: "string \<Rightarrow> string \<Rightarrow> bool" where
  "startswith s [] = True"
| "startswith [] (p # ps) = False"
| "startswith (c # s) (p # ps) = (c = p \<and> startswith s ps)"

fun contains :: "string \<Rightarrow> string \<Rightarrow> bool" where
  "contains [] sub = (sub = [])"
| "contains (c # s) sub = (startswith (c # s) sub \<or> contains s sub)"

definition endswith :: "string \<Rightarrow> string \<Rightarrow> bool" where
  "endswith s suf = startswith (rev s) (rev suf)"

section \<open>Exceptions\<close>

text \<open>
  A raised exception is its class name and the text \<^verbatim>\<open>str(e)\<close>. \<open>Raised\<close> is an
  instance of \<^verbatim>\<open>Exception\<close>; \<open>Interrupt\<close> is one of the exceptions that derive from
  \<^verbatim>\<open>BaseException\<close> only (\<^verbatim>\<open>KeyboardInterrupt\<close>, \<^verbatim>\<open>SystemExit\<close>), which a
  handler \<^verbatim>\<open>except Exception\<close> lets through and a bare \<^verbatim>\<open>except:\<close> catches. Every
  function that can raise returns \<open>exc + 'a\<close>, with \<open>Inl\<close> for the exception.
\<close>

datatype exc = Raised string string | Interrupt string string

fun str_exc :: "exc \<Rightarrow> string" where
  "str_exc (Raised cls text) = text"
| "str_exc (Interrupt cls text) = text"

text \<open>\<^verbatim>\<open>isinstance(e, Exception)\<close>: what \<^verbatim>\<open>except Exception\<close> catches.\<close>

fun is_exception :: "exc \<Rightarrow> bool" where
  "is_exception (Raised cls text) = True"
| "is_exception (Interrupt cls text) = False"

definition KeyError :: "string \<Rightarrow> exc" where
  "KeyError k = Raised ''KeyError'' ([CHR 0x27] @ k @ [CHR 0x27])"

definition FileNotFoundError :: "string \<Rightarrow> exc" where
  "FileNotFoundError path = Raised ''FileNotFoundError'' path"

section \<open>The configured domains\<close>

definition DOMAINS :: "string list" where
  "DOMAINS = [''britishpennies.com'', ''britishpennies.org'']"

section \<open>Remote resources and the remote service\<close>

text \<open>
  \<^verbatim>\<open>google_setup.py\<close> talks to the Analytics Admin service through
  \<^verbatim>\<open>AnalyticsAdminServiceClient\<close>, whose responses are messages: every field is
  present, an unset string field reads as the empty string, and a message is truthy when
  one of its fields is.
\<close>

record account =
  acct_name :: string
  acct_display_name :: string

record property =
  prop_name :: string
  prop_display_name :: string
  time_zone :: string
  currency_code :: string

record web_stream_data =
  measurement_id :: string
  firebase_app_id :: string
  default_uri :: string

record data_stream =
  stream_display_name :: string
  web_stream_data :: web_stream_data

text \<open>
  \<^verbatim>\<open>setup_google_tools.py\<close> talks to the same service through the discovery
  client, whose responses are dictionaries parsed from JSON: a key may be absent
  (\<open>None\<close>), \<^verbatim>\<open>d.get(k, default)\<close> reads it with a default and
  \<^verbatim>\<open>d[k]\<close> raises KeyError when it is absent.
\<close>

record account_dict =
  ad_name :: "string option"
  ad_displayName :: "string option"

record property_dict =
  pd_name :: "string option"
  pd_displayName :: "string option"

record web_stream_dict =
  wd_defaultUri :: "string option"
  wd_measurementId :: "string option"

record stream_dict =
  sd_webStreamData :: "web_stream_dict option"

record site_dict =
  permissionLevel :: "string option"

text \<open>
  The remote services are not code of the repository: they are a parameter. \<open>'r\<close> is
  the state of the remote side. A listing or a lookup reads that state; a creation or a
  registration may change it, also when it fails. Any call may raise. \<open>build_error\<close>
  is the exception \<^verbatim>\<open>googleapiclient.discovery.build\<close> raises for a service
  name, if any.
\<close>

record 'r api =
  list_accounts :: "'r \<Rightarrow> exc + account list"
  list_properties :: "'r \<Rightarrow> string \<Rightarrow> exc + property list"
  create_property :: "'r \<Rightarrow> property \<Rightarrow> string \<Rightarrow> (exc + property) \<times> 'r"
  list_data_streams :: "'r \<Rightarrow> string \<Rightarrow> exc + data_stream list"
  create_data_stream :: "'r \<Rightarrow> string \<Rightarrow> data_stream \<Rightarrow> (exc + data_stream) \<times> 'r"
  build_error :: "string \<Rightarrow> exc option"
  accounts_list :: "'r \<Rightarrow> exc + account_dict list"
  properties_list :: "'r \<Rightarrow> string \<Rightarrow> exc + property_dict list"
  properties_create :: "'r \<Rightarrow> property \<Rightarrow> string \<Rightarrow> (exc + property_dict) \<times> 'r"
  dataStreams_list :: "'r \<Rightarrow> string \<Rightarrow> exc + stream_dict list"
  dataStreams_create :: "'r \<Rightarrow> string \<Rightarrow> data_stream \<Rightarrow> (exc + stream_dict) \<times> 'r"
  sites_add :: "'r \<Rightarrow> string \<Rightarrow> (exc + unit) \<times> 'r"
  sites_get :: "'r \<Rightarrow> string \<Rightarrow> exc + site_dict"

section \<open>The world a script runs in\<close>

text \<open>
  \<open>calls\<close> is the trace of the calls a script has issued, oldest first; \<open>console\<close>
  is what it has printed (the status lines: banners and instructions are left out);
  the three files are the token file, the client-secret file the script reads
  (\<^verbatim>\<open>google-ads.json\<close> for \<^verbatim>\<open>google_setup.py\<close>,
  \<^verbatim>\<open>google-oauth-credentials.json\<close> for \<^verbatim>\<open>setup_google_tools.py\<close>) and
  \<^verbatim>\<open>ga_measurement_ids.json\<close>, each with its text. A file that does not exist is
  \<open>None\<close>.
\<close>

datatype call =
    ListAccounts
  | ListProperties string
  | CreateProperty string string
  | ListDataStreams string
  | CreateDataStream string string
  | Build string
  | SitesAdd string
  | SitesGet string
  | Refresh
  | RunLocalServer
  | InstallDeps

datatype msg =
    NoAccounts
  | UsingAccount string
  | FoundProperty string
  | CreatedProperty string
  | FoundStream string
  | CreatedStream string
  | AnalyticsSetupError exc
  | AddedSite string
  | AlreadyExists string
  | AlreadyExistsOrDenied
  | ErrorLine exc
  | Permission string
  | SearchConsoleSetupError exc
  | MissingCredentialsFile
  | SavedCredentials
  | FailedCredentials
  | AuthenticationSuccessful
  | TrackingCode string string
  | TrackingCodePrimary "string option"
  | SavedIds
  | SetupComplete

record 'r world =
  remote :: 'r
  calls :: "call list"
  console :: "msg list"
  token_file :: "string option"
  creds_file :: "string option"
  ids_file :: "string option"

definition call :: "call \<Rightarrow> 'r world \<Rightarrow> 'r world" where
  "call c w = w\<lparr>calls := calls w @ [c]\<rparr>"

definition say :: "msg \<Rightarrow> 'r world \<Rightarrow> 'r world" where
  "say m w = w\<lparr>console := console w @ [m]\<rparr>"

section \<open>google_setup.py: setup_analytics\<close>

text \<open>
  The test of line 104:
  \<^verbatim>\<open>domain.replace('.', '') in p.display_name.lower().replace(' ', '').replace('.', '')\<close>.
\<close>

definition property_matches :: "string \<Rightarrow> property \<Rightarrow> bool" where
  "property_matches domain p =
     contains (replace_empty (CHR ''.'') (replace_empty (CHR '' '') (lower (prop_display_name p))))
       (replace_empty (CHR ''.'') domain)"

text \<open>
  The test of line 125: \<^verbatim>\<open>hasattr(s, 'web_stream_data') and s.web_stream_data\<close>.
  The attribute is always there; the message is truthy when one of its fields is set.
\<close>

definition has_web_stream_data :: "data_stream \<Rightarrow> bool" where
  "has_web_stream_data s =
     (measurement_id (web_stream_data s) \<noteq> [] \<or> firebase_app_id (web_stream_data s) \<noteq> []
      \<or> default_uri (web_stream_data s) \<noteq> [])"

definition new_property :: "string \<Rightarrow> property" where
  "new_property domain =
     \<lparr>prop_name = [], prop_display_name = ''British Pennies ('' @ domain @ '')'',
      time_zone = ''Europe/London'', currency_code = ''GBP''\<rparr>"

definition new_data_stream :: "string \<Rightarrow> data_stream" where
  "new_data_stream domain =
     \<lparr>stream_display_name = domain @ '' Web Stream'',
      web_stream_data =
        \<lparr>measurement_id = [], firebase_app_id = [], default_uri = ''https://'' @ domain\<rparr>\<rparr>"

text \<open>
  Lines 109 to 119: \<^verbatim>\<open>create_property\<close>, issued with the display name built
  from the domain.
\<close>

definition create_new_property :: "'r api \<Rightarrow> account \<Rightarrow> string \<Rightarrow> 'r world \<Rightarrow> (exc + property) \<times> 'r world" where
  "create_new_property api account domain w =
     (let w1 = call (CreateProperty (prop_display_name (new_property domain)) (acct_name account)) w in
      case create_property api (remote w1) (new_property domain) (acct_name account) of
        (Inl e, r') \<Rightarrow> (Inl e, w1\<lparr>remote := r'\<rparr>)
      | (Inr prop, r') \<Rightarrow>
          (Inr prop, say (CreatedProperty (prop_display_name prop)) (w1\<lparr>remote := r'\<rparr>)))"

text \<open>
  \<^verbatim>\<open>if not prop\<close> is true for \<^verbatim>\<open>None\<close> and for a message with no field
  set.
\<close>

definition property_truthy :: "property \<Rightarrow> bool" where
  "property_truthy p =
     (prop_name p \<noteq> [] \<or> prop_display_name p \<noteq> [] \<or> time_zone p \<noteq> [] \<or> currency_code p \<noteq> [])"

text \<open>
  Lines 100 to 119: list the account's properties, take the first whose display name
  matches (the loop with \<^verbatim>\<open>break\<close>), create one when none does. The result is the
  property the rest of the iteration works on.
\<close>

definition ensure_property :: "'r api \<Rightarrow> account \<Rightarrow> string \<Rightarrow> 'r world \<Rightarrow> (exc + property) \<times> 'r world" where
  "ensure_property api account domain w =
     (let w1 = call (ListProperties (''parent:'' @ acct_name account)) w in
      case list_properties api (remote w1) (''parent:'' @ acct_name account) of
        Inl e \<Rightarrow> (Inl e, w1)
      | Inr existing_props \<Rightarrow>
          (case find (property_matches domain) existing_props of
             None \<Rightarrow> create_new_property api account domain w1
           | Some p \<Rightarrow>
               (let w2 = say (FoundProperty (prop_display_name p)) w1 in
                if property_truthy p then (Inr p, w2)
                else create_new_property api account domain w2)))"

text \<open>
  Lines 121 to 144: list the property's data streams, take the first with web stream
  data, create a web stream when there is none, and record the measurement ID under the
  domain. \<open>AList.update\<close> is the dictionary assignment: it replaces the value of a key
  that is there and appends a new key.
\<close>

definition ensure_stream ::
  "'r api \<Rightarrow> property \<Rightarrow> string \<Rightarrow> (string \<times> string) list \<Rightarrow> 'r world
     \<Rightarrow> (exc + (string \<times> string) list) \<times> 'r world" where
  "ensure_stream api prop domain measurement_ids w =
     (let w1 = call (ListDataStreams (prop_name prop)) w in
      case list_data_streams api (remote w1) (prop_name prop) of
        Inl e \<Rightarrow> (Inl e, w1)
      | Inr streams \<Rightarrow>
          (case find has_web_stream_data streams of
             Some s \<Rightarrow>
               (Inr (AList.update domain (measurement_id (web_stream_data s)) measurement_ids),
                say (FoundStream (measurement_id (web_stream_data s))) w1)
           | None \<Rightarrow>
               (let w2 = call (CreateDataStream (prop_name prop)
                                 (default_uri (web_stream_data (new_data_stream domain)))) w1 in
                case create_data_stream api (remote w2) (prop_name prop) (new_data_stream domain) of
                  (Inl e, r') \<Rightarrow> (Inl e, w2\<lparr>remote := r'\<rparr>)
                | (Inr stream, r') \<Rightarrow>
                    (Inr (AList.update domain (measurement_id (web_stream_data stream)) measurement_ids),
                     say (CreatedStream (measurement_id (web_stream_data stream)))
                       (w2\<lparr>remote := r'\<rparr>)))))"

text \<open>One iteration of the loop over the domains (lines 97 to 144).\<close>

definition analytics_domain ::
  "'r api \<Rightarrow> account \<Rightarrow> string \<Rightarrow> (string \<times> string) list \<Rightarrow> 'r world
     \<Rightarrow> (exc + (string \<times> string) list) \<times> 'r world" where
  "analytics_domain api account domain measurement_ids w =
     (case ensure_property api account domain w of
        (Inl e, w') \<Rightarrow> (Inl e, w')
      | (Inr prop, w') \<Rightarrow> ensure_stream api prop domain measurement_ids w')"

text \<open>The loop: nothing catches an exception, so the first one ends it.\<close>

fun analytics_loop ::
  "'r api \<Rightarrow> account \<Rightarrow> string list \<Rightarrow> (string \<times> string) list \<Rightarrow> 'r world
     \<Rightarrow> (exc + (string \<times> string) list) \<times> 'r world" where
  "analytics_loop api account [] measurement_ids w = (Inr measurement_ids, w)"
| "analytics_loop api account (domain # rest) measurement_ids w =
     (case analytics_domain api account domain measurement_ids w of
        (Inl e, w') \<Rightarrow> (Inl e, w')
      | (Inr measurement_ids', w') \<Rightarrow> analytics_loop api account rest measurement_ids' w')"

text \<open>
  \<open>setup_analytics\<close> (lines 76 to 146). The result is \<open>None\<close> when there is no
  account, the dictionary otherwise.
\<close>

definition setup_analytics :: "'r api \<Rightarrow> 'r world \<Rightarrow> (exc + (string \<times> string) list option) \<times> 'r world" where
  "setup_analytics api w =
     (let w1 = call ListAccounts w in
      case list_accounts api (remote w1) of
        Inl e \<Rightarrow> (Inl e, w1)
      | Inr [] \<Rightarrow> (Inr None, say NoAccounts w1)
      | Inr (account # others) \<Rightarrow>
          (case analytics_loop api account DOMAINS [] (say (UsingAccount (acct_display_name account)) w1) of
             (Inl e, w') \<Rightarrow> (Inl e, w')
           | (Inr measurement_ids, w') \<Rightarrow> (Inr (Some measurement_ids), w')))"

section \<open>setup_google_tools.py: setup_analytics\<close>

text \<open>
  The test of line 103: \<^verbatim>\<open>domain in prop.get('displayName', '')\<close>.
\<close>

definition property_dict_matches :: "string \<Rightarrow> property_dict \<Rightarrow> bool" where
  "property_dict_matches domain prop =
     contains (case pd_displayName prop of None \<Rightarrow> [] | Some n \<Rightarrow> n) domain"

text \<open>
  The test of line 131:
  \<^verbatim>\<open>stream.get('webStreamData', {}).get('defaultUri', '').endswith(domain)\<close>.
\<close>

definition stream_dict_matches :: "string \<Rightarrow> stream_dict \<Rightarrow> bool" where
  "stream_dict_matches domain stream =
     endswith
       (case sd_webStreamData stream of
          None \<Rightarrow> []
        | Some wd \<Rightarrow> (case wd_defaultUri wd of None \<Rightarrow> [] | Some u \<Rightarrow> u))
       domain"

text \<open>\<^verbatim>\<open>stream['webStreamData']['measurementId']\<close> (lines 132 and 150).\<close>

definition stream_measurementId :: "stream_dict \<Rightarrow> exc + string" where
  "stream_measurementId stream =
     (case sd_webStreamData stream of
        None \<Rightarrow> Inl (KeyError ''webStreamData'')
      | Some wd \<Rightarrow>
          (case wd_measurementId wd of
             None \<Rightarrow> Inl (KeyError ''measurementId'')
           | Some m \<Rightarrow> Inr m))"

text \<open>A dictionary is truthy when it has a key (\<^verbatim>\<open>if existing\<close>, line 107).\<close>

definition property_dict_truthy :: "property_dict \<Rightarrow> bool" where
  "property_dict_truthy prop = (pd_name prop \<noteq> None \<or> pd_displayName prop \<noteq> None)"

text \<open>
  Lines 110 to 124, the creation of a property. The body of the request carries the
  display name, the time zone and the currency code of \<open>new_property\<close>. The name is
  read from the response before the display name is printed.
\<close>

definition create_property_dict :: "'r api \<Rightarrow> string \<Rightarrow> string \<Rightarrow> 'r world \<Rightarrow> (exc + string) \<times> 'r world" where
  "create_property_dict api account_name domain w =
     (let w1 = call (CreateProperty (prop_display_name (new_property domain)) account_name) w in
      case properties_create api (remote w1) (new_property domain) account_name of
        (Inl e, r') \<Rightarrow> (Inl e, w1\<lparr>remote := r'\<rparr>)
      | (Inr result, r') \<Rightarrow>
          (case pd_name result of
             None \<Rightarrow> (Inl (KeyError ''name''), w1\<lparr>remote := r'\<rparr>)
           | Some pname \<Rightarrow>
               (case pd_displayName result of
                  None \<Rightarrow> (Inl (KeyError ''displayName''), w1\<lparr>remote := r'\<rparr>)
                | Some dn \<Rightarrow> (Inr pname, say (CreatedProperty dn) (w1\<lparr>remote := r'\<rparr>)))))"

text \<open>Lines 99 to 124: the result is the name of the property.\<close>

definition ensure_property_dict :: "'r api \<Rightarrow> string \<Rightarrow> string \<Rightarrow> 'r world \<Rightarrow> (exc + string) \<times> 'r world" where
  "ensure_property_dict api account_name domain w =
     (let w1 = call (ListProperties (''parent:'' @ account_name)) w in
      case properties_list api (remote w1) (''parent:'' @ account_name) of
        Inl e \<Rightarrow> (Inl e, w1)
      | Inr properties \<Rightarrow>
          (case find (property_dict_matches domain) properties of
             None \<Rightarrow> create_property_dict api account_name domain w1
           | Some existing \<Rightarrow>
               (if property_dict_truthy existing then
                  (case pd_displayName existing of
                     None \<Rightarrow> (Inl (KeyError ''displayName''), w1)
                   | Some dn \<Rightarrow>
                       (case pd_name existing of
                          None \<Rightarrow> (Inl (KeyError ''name''), say (FoundProperty dn) w1)
                        | Some pname \<Rightarrow> (Inr pname, say (FoundProperty dn) w1)))
                else create_property_dict api account_name domain w1)))"

text \<open>
  Lines 126 to 151: the first stream whose default URI ends with the domain gives the
  measurement ID; a stream is created when none does.
\<close>

definition ensure_stream_dict ::
  "'r api \<Rightarrow> string \<Rightarrow> string \<Rightarrow> (string \<times> string) list \<Rightarrow> 'r world
     \<Rightarrow> (exc + (string \<times> string) list) \<times> 'r world" where
  "ensure_stream_dict api pname domain measurement_ids w =
     (let w1 = call (ListDataStreams pname) w in
      case dataStreams_list api (remote w1) pname of
        Inl e \<Rightarrow> (Inl e, w1)
      | Inr streams \<Rightarrow>
          (case find (stream_dict_matches domain) streams of
             Some stream \<Rightarrow>
               (case stream_measurementId stream of
                  Inl e \<Rightarrow> (Inl e, w1)
                | Inr m \<Rightarrow> (Inr (AList.update domain m measurement_ids), say (FoundStream m) w1))
           | None \<Rightarrow>
               (let w2 = call (CreateDataStream pname
                                 (default_uri (web_stream_data (new_data_stream domain)))) w1 in
                case dataStreams_create api (remote w2) pname (new_data_stream domain) of
                  (Inl e, r') \<Rightarrow> (Inl e, w2\<lparr>remote := r'\<rparr>)
                | (Inr stream, r') \<Rightarrow>
                    (case stream_measurementId stream of
                       Inl e \<Rightarrow> (Inl e, w2\<lparr>remote := r'\<rparr>)
                     | Inr m \<Rightarrow>
                         (Inr (AList.update domain m measurement_ids),
                          say (CreatedStream m) (w2\<lparr>remote := r'\<rparr>))))))"

text \<open>One iteration of the loop over the domains (lines 96 to 151).\<close>

definition analytics_domain_dict ::
  "'r api \<Rightarrow> string \<Rightarrow> string \<Rightarrow> (string \<times> string) list \<Rightarrow> 'r world
     \<Rightarrow> (exc + (string \<times> string) list) \<times> 'r world" where
  "analytics_domain_dict api account_name domain measurement_ids w =
     (case ensure_property_dict api account_name domain w of
        (Inl e, w') \<Rightarrow> (Inl e, w')
      | (Inr pname, w') \<Rightarrow> ensure_stream_dict api pname domain measurement_ids w')"

fun analytics_loop_dict ::
  "'r api \<Rightarrow> string \<Rightarrow> string list \<Rightarrow> (string \<times> string) list \<Rightarrow> 'r world
     \<Rightarrow> (exc + (string \<times> string) list) \<times> 'r world" where
  "analytics_loop_dict api account_name [] measurement_ids w = (Inr measurement_ids, w)"
| "analytics_loop_dict api account_name (domain # rest) measurement_ids w =
     (case analytics_domain_dict api account_name domain measurement_ids w of
        (Inl e, w') \<Rightarrow> (Inl e, w')
      | (Inr measurement_ids', w') \<Rightarrow> analytics_loop_dict api account_name rest measurement_ids' w')"

text \<open>The body of the \<^verbatim>\<open>try\<close> of \<open>setup_analytics\<close> (lines 79 to 153).\<close>

definition setup_analytics_try :: "'r api \<Rightarrow> 'r world \<Rightarrow> (exc + (string \<times> string) list option) \<times> 'r world" where
  "setup_analytics_try api w =
     (let w1 = call (Build ''analyticsadmin'') w in
      case build_error api ''analyticsadmin'' of
        Some e \<Rightarrow> (Inl e, w1)
      | None \<Rightarrow>
          (let w2 = call ListAccounts w1 in
           case accounts_list api (remote w2) of
             Inl e \<Rightarrow> (Inl e, w2)
           | Inr [] \<Rightarrow> (Inr None, say NoAccounts w2)
           | Inr (account # others) \<Rightarrow>
               (case ad_name account of
                  None \<Rightarrow> (Inl (KeyError ''name''), w2)
                | Some account_name \<Rightarrow>
                    (case analytics_loop_dict api account_name DOMAINS []
                            (say (UsingAccount (case ad_displayName account of
                                                  None \<Rightarrow> account_name | Some dn \<Rightarrow> dn)) w2) of
                       (Inl e, w') \<Rightarrow> (Inl e, w')
                     | (Inr measurement_ids, w') \<Rightarrow> (Inr (Some measurement_ids), w')))))"

text \<open>
  \<open>setup_analytics\<close> of \<^verbatim>\<open>setup_google_tools.py\<close> (lines 74 to 157): the handler
  \<^verbatim>\<open>except Exception as e\<close> of line 155 prints the exception and returns
  \<^verbatim>\<open>None\<close>.
\<close>

definition setup_analytics_dict ::
  "'r api \<Rightarrow> 'r world \<Rightarrow> (exc + (string \<times> string) list option) \<times> 'r world" where
  "setup_analytics_dict api w =
     (case setup_analytics_try api w of
        (Inl e, w') \<Rightarrow>
          (if is_exception e then (Inr None, say (AnalyticsSetupError e) w')
           else (Inl e, w'))
      | (Inr result, w') \<Rightarrow> (Inr result, w'))"

section \<open>setup_search_console\<close>

definition site_url :: "string \<Rightarrow> string" where
  "site_url domain = ''https://'' @ domain @ ''/''"

text \<open>
  \<^verbatim>\<open>google_setup.py\<close>, lines 161 to 168: the registration call and its handler
  \<^verbatim>\<open>except Exception as e\<close>, which prints a warning or the exception. An exception
  that is no \<^verbatim>\<open>Exception\<close> is not caught.
\<close>

definition add_site :: "'r api \<Rightarrow> string \<Rightarrow> 'r world \<Rightarrow> (exc + unit) \<times> 'r world" where
  "add_site api url w =
     (let w1 = call (SitesAdd url) w in
      case sites_add api (remote w1) url of
        (Inr u, r') \<Rightarrow> (Inr (), say (AddedSite url) (w1\<lparr>remote := r'\<rparr>))
      | (Inl e, r') \<Rightarrow>
          (if is_exception e then
             (if contains (lower (str_exc e)) ''already''
              then (Inr (), say (AlreadyExists url) (w1\<lparr>remote := r'\<rparr>))
              else (Inr (), say (ErrorLine e) (w1\<lparr>remote := r'\<rparr>)))
           else (Inl e, w1\<lparr>remote := r'\<rparr>)))"

text \<open>
  \<^verbatim>\<open>setup_google_tools.py\<close>, lines 171 to 179: the same call, with the handler
  \<^verbatim>\<open>except Exception as e\<close> and the test
  \<^verbatim>\<open>'already exists' in str(e).lower() or '403' in str(e)\<close>.
\<close>

definition add_site_dict :: "'r api \<Rightarrow> string \<Rightarrow> 'r world \<Rightarrow> (exc + unit) \<times> 'r world" where
  "add_site_dict api url w =
     (let w1 = call (SitesAdd url) w in
      case sites_add api (remote w1) url of
        (Inr u, r') \<Rightarrow> (Inr (), say (AddedSite url) (w1\<lparr>remote := r'\<rparr>))
      | (Inl e, r') \<Rightarrow>
          (if is_exception e then
             (if contains (lower (str_exc e)) ''already exists'' \<or> contains (str_exc e) ''403''
              then (Inr (), say AlreadyExistsOrDenied (w1\<lparr>remote := r'\<rparr>))
              else (Inr (), say (ErrorLine e) (w1\<lparr>remote := r'\<rparr>)))
           else (Inl e, w1\<lparr>remote := r'\<rparr>)))"

text \<open>
  The lookup that follows in both scripts, under a bare \<^verbatim>\<open>except:\<close>: the permission
  level is printed, with \<^verbatim>\<open>'unknown'\<close> when the key is absent, and every exception
  is dropped.
\<close>

definition check_site :: "'r api \<Rightarrow> string \<Rightarrow> 'r world \<Rightarrow> 'r world" where
  "check_site api url w =
     (let w1 = call (SitesGet url) w in
      case sites_get api (remote w1) url of
        Inl e \<Rightarrow> w1
      | Inr site \<Rightarrow>
          say (Permission (case permissionLevel site of None \<Rightarrow> ''unknown'' | Some l \<Rightarrow> l)) w1)"

text \<open>The loops over the domains: an exception that leaves the registration ends them.\<close>

fun search_console_loop :: "'r api \<Rightarrow> string list \<Rightarrow> 'r world \<Rightarrow> (exc + unit) \<times> 'r world" where
  "search_console_loop api [] w = (Inr (), w)"
| "search_console_loop api (domain # rest) w =
     (case add_site api (site_url domain) w of
        (Inl e, w') \<Rightarrow> (Inl e, w')
      | (Inr u, w') \<Rightarrow> search_console_loop api rest (check_site api (site_url domain) w'))"

fun search_console_loop_dict :: "'r api \<Rightarrow> string list \<Rightarrow> 'r world \<Rightarrow> (exc + unit) \<times> 'r world" where
  "search_console_loop_dict api [] w = (Inr (), w)"
| "search_console_loop_dict api (domain # rest) w =
     (case add_site_dict api (site_url domain) w of
        (Inl e, w') \<Rightarrow> (Inl e, w')
      | (Inr u, w') \<Rightarrow> search_console_loop_dict api rest (check_site api (site_url domain) w'))"

text \<open>
  \<^verbatim>\<open>google_setup.py\<close>, lines 149 to 175: \<^verbatim>\<open>build\<close> stands outside every
  \<^verbatim>\<open>try\<close>.
\<close>

definition setup_search_console :: "'r api \<Rightarrow> 'r world \<Rightarrow> (exc + unit) \<times> 'r world" where
  "setup_search_console api w =
     (let w1 = call (Build ''searchconsole'') w in
      case build_error api ''searchconsole'' of
        Some e \<Rightarrow> (Inl e, w1)
      | None \<Rightarrow> search_console_loop api DOMAINS w1)"

text \<open>
  \<^verbatim>\<open>setup_google_tools.py\<close>, lines 160 to 197: the result is \<^verbatim>\<open>True\<close>, or
  \<^verbatim>\<open>None\<close> from the handler \<^verbatim>\<open>except Exception as e\<close> of line 195, which prints
  the exception.
\<close>

definition setup_search_console_try :: "'r api \<Rightarrow> 'r world \<Rightarrow> (exc + bool option) \<times> 'r world" where
  "setup_search_console_try api w =
     (let w1 = call (Build ''searchconsole'') w in
      case build_error api ''searchconsole'' of
        Some e \<Rightarrow> (Inl e, w1)
      | None \<Rightarrow>
          (case search_console_loop_dict api DOMAINS w1 of
             (Inl e, w') \<Rightarrow> (Inl e, w')
           | (Inr u, w') \<Rightarrow> (Inr (Some True), w')))"

definition setup_search_console_dict :: "'r api \<Rightarrow> 'r world \<Rightarrow> (exc + bool option) \<times> 'r world" where
  "setup_search_console_dict api w =
     (case setup_search_console_try api w of
        (Inl e, w') \<Rightarrow>
          (if is_exception e then (Inr None, say (SearchConsoleSetupError e) w')
           else (Inl e, w'))
      | (Inr result, w') \<Rightarrow> (Inr result, w'))"

section \<open>get_credentials\<close>

text \<open>
  A credential object, as far as the scripts look at it: \<^verbatim>\<open>creds.valid\<close>,
  \<^verbatim>\<open>creds.expired\<close> and \<^verbatim>\<open>creds.refresh_token\<close> (truthy when it is a
  non-empty string).
\<close>

record credentials =
  token :: string
  refresh_token :: "string option"
  valid :: bool
  expired :: bool

record client_config =
  client_id :: string
  client_secret :: string

text \<open>
  The OAuth library is a parameter as well: parsing the token file, refreshing,
  serialising, reading the client secrets, and the interactive flow
  (\<^verbatim>\<open>run_local_server\<close>, with its port). Each may raise. \<open>json_load\<close> is
  \<^verbatim>\<open>json.load\<close> on the text of a file, and \<open>install_deps_error\<close> is the
  exception of the \<^verbatim>\<open>pip\<close> subprocess of \<^verbatim>\<open>install_deps\<close>, if any.
  Writing a file succeeds.
\<close>

record oauth =
  from_authorized_user_file :: "string \<Rightarrow> exc + credentials"
  refresh :: "credentials \<Rightarrow> exc + credentials"
  to_json :: "credentials \<Rightarrow> string"
  json_load :: "string \<Rightarrow> exc + (string \<times> string) list"
  from_client_config :: "client_config \<Rightarrow> exc + client_config"
  from_client_secrets_file :: "string \<Rightarrow> exc + client_config"
  run_local_server :: "client_config \<Rightarrow> nat \<Rightarrow> exc + credentials"
  install_deps_error :: "exc option"

definition refresh_token_truthy :: "credentials \<Rightarrow> bool" where
  "refresh_token_truthy creds =
     (case refresh_token creds of None \<Rightarrow> False | Some t \<Rightarrow> t \<noteq> [])"

text \<open>
  Lines 43 and 44 (46 and 47): \<^verbatim>\<open>creds\<close> stays \<^verbatim>\<open>None\<close> when the token file
  does not exist.
\<close>

definition load_token :: "oauth \<Rightarrow> 'r world \<Rightarrow> exc + credentials option" where
  "load_token lib w =
     (case token_file w of
        None \<Rightarrow> Inr None
      | Some text \<Rightarrow>
          (case from_authorized_user_file lib text of
             Inl e \<Rightarrow> Inl e
           | Inr creds \<Rightarrow> Inr (Some creds)))"

text \<open>\<^verbatim>\<open>not creds or not creds.valid\<close>.\<close>

definition needs_auth :: "credentials option \<Rightarrow> bool" where
  "needs_auth creds = (case creds of None \<Rightarrow> True | Some c \<Rightarrow> \<not> valid c)"

text \<open>
  \<^verbatim>\<open>creds and creds.expired and creds.refresh_token\<close>: the credential to
  refresh, if the test holds.
\<close>

definition refreshable :: "credentials option \<Rightarrow> credentials option" where
  "refreshable creds =
     (case creds of
        None \<Rightarrow> None
      | Some c \<Rightarrow> if expired c \<and> refresh_token_truthy c then Some c else None)"

text \<open>The write of the token file that ends the outer \<^verbatim>\<open>if\<close>.\<close>

definition save_token :: "oauth \<Rightarrow> credentials \<Rightarrow> 'r world \<Rightarrow> 'r world" where
  "save_token lib creds w = w\<lparr>token_file := Some (to_json lib creds)\<rparr>"

text \<open>The refresh branch, the same in both scripts.\<close>

definition refresh_branch :: "oauth \<Rightarrow> credentials \<Rightarrow> 'r world \<Rightarrow> (exc + credentials) \<times> 'r world" where
  "refresh_branch lib c w =
     (let w1 = call Refresh w in
      case refresh lib c of
        Inl e \<Rightarrow> (Inl e, w1)
      | Inr c' \<Rightarrow> (Inr c', w1))"

text \<open>
  \<^verbatim>\<open>google_setup.py\<close>, lines 51 to 66: the client secrets are read from
  \<^verbatim>\<open>google-ads.json\<close>; \<^verbatim>\<open>open\<close> raises when the file does not exist.
\<close>

definition interactive_flow :: "oauth \<Rightarrow> 'r world \<Rightarrow> (exc + credentials) \<times> 'r world" where
  "interactive_flow lib w =
     (case creds_file w of
        None \<Rightarrow> (Inl (FileNotFoundError ''google-ads.json''), w)
      | Some text \<Rightarrow>
          (case json_load lib text of
             Inl e \<Rightarrow> (Inl e, w)
           | Inr ads_creds \<Rightarrow>
               (case map_of ads_creds ''client_id'' of
                  None \<Rightarrow> (Inl (KeyError ''client_id''), w)
                | Some cid \<Rightarrow>
                    (case map_of ads_creds ''client_secret'' of
                       None \<Rightarrow> (Inl (KeyError ''client_secret''), w)
                     | Some secret \<Rightarrow>
                         (case from_client_config lib \<lparr>client_id = cid, client_secret = secret\<rparr> of
                            Inl e \<Rightarrow> (Inl e, w)
                          | Inr flow \<Rightarrow>
                              (let w1 = call RunLocalServer w in
                               case run_local_server lib flow 8080 of
                                 Inl e \<Rightarrow> (Inl e, w1)
                               | Inr c \<Rightarrow> (Inr c, w1)))))))"

text \<open>\<open>get_credentials\<close> of \<^verbatim>\<open>google_setup.py\<close> (lines 34 to 73).\<close>

definition get_credentials :: "oauth \<Rightarrow> 'r world \<Rightarrow> (exc + credentials option) \<times> 'r world" where
  "get_credentials lib w =
     (case load_token lib w of
        Inl e \<Rightarrow> (Inl e, w)
      | Inr creds \<Rightarrow>
          (if needs_auth creds then
             (case (case refreshable creds of
                      Some c \<Rightarrow> refresh_branch lib c w
                    | None \<Rightarrow> interactive_flow lib w) of
                (Inl e, w') \<Rightarrow> (Inl e, w')
              | (Inr c, w') \<Rightarrow> (Inr (Some c), say SavedCredentials (save_token lib c w')))
           else (Inr creds, w)))"

text \<open>
  \<^verbatim>\<open>setup_google_tools.py\<close>, lines 53 to 65: the guard on the client-secret file
  returns \<^verbatim>\<open>None\<close> from the function (here \<open>Inr None\<close>); otherwise the flow runs on
  a port the system chooses.
\<close>

definition interactive_flow_dict :: "oauth \<Rightarrow> 'r world \<Rightarrow> (exc + credentials option) \<times> 'r world" where
  "interactive_flow_dict lib w =
     (case creds_file w of
        None \<Rightarrow> (Inr None, say MissingCredentialsFile w)
      | Some text \<Rightarrow>
          (case from_client_secrets_file lib text of
             Inl e \<Rightarrow> (Inl e, w)
           | Inr flow \<Rightarrow>
               (let w1 = call RunLocalServer w in
                case run_local_server lib flow 0 of
                  Inl e \<Rightarrow> (Inl e, w1)
                | Inr c \<Rightarrow> (Inr (Some c), w1))))"

text \<open>\<open>get_credentials\<close> of \<^verbatim>\<open>setup_google_tools.py\<close> (lines 42 to 71).\<close>

definition get_credentials_dict :: "oauth \<Rightarrow> 'r world \<Rightarrow> (exc + credentials option) \<times> 'r world" where
  "get_credentials_dict lib w =
     (case load_token lib w of
        Inl e \<Rightarrow> (Inl e, w)
      | Inr creds \<Rightarrow>
          (if needs_auth creds then
             (case refreshable creds of
                Some c \<Rightarrow>
                  (case refresh_branch lib c w of
                     (Inl e, w') \<Rightarrow> (Inl e, w')
                   | (Inr c', w') \<Rightarrow> (Inr (Some c'), save_token lib c' w'))
              | None \<Rightarrow>
                  (case interactive_flow_dict lib w of
                     (Inl e, w') \<Rightarrow> (Inl e, w')
                   | (Inr None, w') \<Rightarrow> (Inr None, w')
                   | (Inr (Some c), w') \<Rightarrow> (Inr (Some c), save_token lib c w')))
           else (Inr creds, w)))"

section \<open>The JSON text of the measurement IDs\<close>

text \<open>
  \<^verbatim>\<open>json.dump(measurement_ids, f, indent=2)\<close> is the standard library's. For a
  dictionary from strings to strings it writes \<^verbatim>\<open>{}\<close> when the dictionary is
  empty, and otherwise the items in the order of the dictionary, each on a line of its
  own after two spaces, with \<^verbatim>\<open>": "\<close> between key and value and a comma after every
  item but the last. A string is written between double quotes; the double quote, the
  backslash and the control characters that have a short escape are written with it, a
  character from the space to the tilde is written as it is, and every other character
  as \<^verbatim>\<open>\u\<close> and four hexadecimal digits in lower case. A character is a code point
  below 256 here.
\<close>

definition hex_digit :: "nat \<Rightarrow> char" where
  "hex_digit n = ''0123456789abcdef'' ! n"

definition hex_value :: "char \<Rightarrow> nat option" where
  "hex_value c =
     (let n = (of_char c :: nat) in
      if 48 \<le> n \<and> n \<le> 57 then Some (n - 48)
      else if 97 \<le> n \<and> n \<le> 102 then Some (n - 87)
      else if 65 \<le> n \<and> n \<le> 70 then Some (n - 55)
      else None)"

definition json_escape :: "char \<Rightarrow> string" where
  "json_escape c =
     (if c = CHR 0x22 then [CHR 0x5C, CHR 0x22]
      else if c = CHR 0x5C then [CHR 0x5C, CHR 0x5C]
      else if c = CHR 0x0A then [CHR 0x5C, CHR ''n'']
      else if c = CHR 0x0D then [CHR 0x5C, CHR ''r'']
      else if c = CHR 0x09 then [CHR 0x5C, CHR ''t'']
      else if c = CHR 0x08 then [CHR 0x5C, CHR ''b'']
      else if c = CHR 0x0C then [CHR 0x5C, CHR ''f'']
      else if 32 \<le> (of_char c :: nat) \<and> (of_char c :: nat) \<le> 126 then [c]
      else [CHR 0x5C, CHR ''u'', CHR ''0'', CHR ''0'',
            hex_digit ((of_char c :: nat) div 16), hex_digit ((of_char c :: nat) mod 16)])"

definition json_string :: "string \<Rightarrow> string" where
  "json_string s = CHR 0x22 # concat (map json_escape s) @ [CHR 0x22]"

definition json_item :: "string \<times> string \<Rightarrow> string" where
  "json_item kv = json_string (fst kv) @ '': '' @ json_string (snd kv)"

fun json_items :: "(string \<times> string) list \<Rightarrow> string" where
  "json_items [] = []"
| "json_items [kv] = json_item kv"
| "json_items (kv # kv' # kvs) = json_item kv @ [CHR '','', CHR 0x0A, CHR '' '', CHR '' ''] @ json_items (kv' # kvs)"

definition json_dump :: "(string \<times> string) list \<Rightarrow> string" where
  "json_dump d =
     (if d = [] then ''{}''
      else [CHR ''{'', CHR 0x0A, CHR '' '', CHR '' ''] @ json_items d @ [CHR 0x0A, CHR ''}''])"

text \<open>
  \<^verbatim>\<open>json.load\<close> on the text of such a file: white space between the tokens, an
  object whose keys and values are strings, the escapes of JSON in the strings, no
  control character in a string, and nothing but white space after the object. The
  result is the dictionary, in which a later value replaces an earlier one for the same
  key; \<open>None\<close> when the text is not of this form. The number of members is at most the
  length of the text, which bounds the loop over the members.
\<close>

definition is_ws :: "char \<Rightarrow> bool" where
  "is_ws c = (c = CHR '' '' \<or> c = CHR 0x09 \<or> c = CHR 0x0A \<or> c = CHR 0x0D)"

definition skip_ws :: "string \<Rightarrow> string" where
  "skip_ws s = dropWhile is_ws s"

definition simple_escape :: "char \<Rightarrow> char option" where
  "simple_escape e =
     (if e = CHR 0x22 then Some (CHR 0x22)
      else if e = CHR 0x5C then Some (CHR 0x5C)
      else if e = CHR ''/'' then Some (CHR ''/'')
      else if e = CHR ''b'' then Some (CHR 0x08)
      else if e = CHR ''f'' then Some (CHR 0x0C)
      else if e = CHR ''n'' then Some (CHR 0x0A)
      else if e = CHR ''r'' then Some (CHR 0x0D)
      else if e = CHR ''t'' then Some (CHR 0x09)
      else None)"

definition unicode_escape :: "char \<Rightarrow> char \<Rightarrow> char \<Rightarrow> char \<Rightarrow> char option" where
  "unicode_escape a b c d =
     (case (hex_value a, hex_value b, hex_value c, hex_value d) of
        (Some x3, Some x2, Some x1, Some x0) \<Rightarrow>
          (let n = ((x3 * 16 + x2) * 16 + x1) * 16 + x0
           in if n < 256 then Some (char_of n) else None)
      | _ \<Rightarrow> None)"

definition cons_result :: "char \<Rightarrow> (string \<times> string) option \<Rightarrow> (string \<times> string) option" where
  "cons_result ch res = (case res of None \<Rightarrow> None | Some (s, rest) \<Rightarrow> Some (ch # s, rest))"

fun parse_string_body :: "string \<Rightarrow> (string \<times> string) option" where
  "parse_string_body [] = None"
| "parse_string_body (c # cs) =
     (if c = CHR 0x22 then Some ([], cs)
      else if c = CHR 0x5C then
        (case cs of
           [] \<Rightarrow> None
         | e # cs1 \<Rightarrow>
             (if e = CHR ''u'' then
                (case cs1 of
                   a # b # c' # d # cs2 \<Rightarrow>
                     (case unicode_escape a b c' d of
                        None \<Rightarrow> None
                      | Some ch \<Rightarrow> cons_result ch (parse_string_body cs2))
                 | _ \<Rightarrow> None)
              else
                (case simple_escape e of
                   None \<Rightarrow> None
                 | Some ch \<Rightarrow> cons_result ch (parse_string_body cs1))))
      else if (of_char c :: nat) < 32 then None
      else cons_result c (parse_string_body cs))"

definition parse_string :: "string \<Rightarrow> (string \<times> string) option" where
  "parse_string s = (case s of [] \<Rightarrow> None | c # cs \<Rightarrow> if c = CHR 0x22 then parse_string_body cs else None)"

fun parse_members :: "nat \<Rightarrow> string \<Rightarrow> ((string \<times> string) list \<times> string) option" where
  "parse_members 0 s = None"
| "parse_members (Suc n) s =
     (case parse_string (skip_ws s) of
        None \<Rightarrow> None
      | Some (k, s1) \<Rightarrow>
          (case skip_ws s1 of
             [] \<Rightarrow> None
           | c # s2 \<Rightarrow>
               (if c = CHR '':'' then
                  (case parse_string (skip_ws s2) of
                     None \<Rightarrow> None
                   | Some (v, s3) \<Rightarrow>
                       (case skip_ws s3 of
                          [] \<Rightarrow> None
                        | d # s4 \<Rightarrow>
                            (if d = CHR '','' then
                               (case parse_members n s4 of
                                  None \<Rightarrow> None
                                | Some (kvs, rest) \<Rightarrow> Some ((k, v) # kvs, rest))
                             else if d = CHR ''}'' then Some ([(k, v)], s4)
                             else None)))
                else None)))"

definition to_dict :: "(string \<times> string) list \<Rightarrow> (string \<times> string) list" where
  "to_dict kvs = foldl (\<lambda>d kv. AList.update (fst kv) (snd kv) d) [] kvs"

definition json_loads :: "string \<Rightarrow> (string \<times> string) list option" where
  "json_loads s =
     (case skip_ws s of
        [] \<Rightarrow> None
      | c # s1 \<Rightarrow>
          (if c = CHR ''{'' then
             (case skip_ws s1 of
                [] \<Rightarrow> None
              | d # s2 \<Rightarrow>
                  (if d = CHR ''}'' then (if skip_ws s2 = [] then Some [] else None)
                   else
                     (case parse_members (length s) s1 of
                        None \<Rightarrow> None
                      | Some (kvs, rest) \<Rightarrow> if skip_ws rest = [] then Some (to_dict kvs) else None)))
           else None))"

section \<open>The output and main\<close>

text \<open>
  \<open>print_tracking_code\<close> of \<^verbatim>\<open>google_setup.py\<close> (lines 178 to 205): nothing
  happens for \<^verbatim>\<open>None\<close> or an empty dictionary; otherwise one snippet is printed,
  for the \<^verbatim>\<open>.org\<close> identifier when there is one, and the dictionary is written.
\<close>

definition print_tracking_code :: "(string \<times> string) list option \<Rightarrow> 'r world \<Rightarrow> 'r world" where
  "print_tracking_code measurement_ids w =
     (case measurement_ids of
        None \<Rightarrow> w
      | Some [] \<Rightarrow> w
      | Some (kv # kvs) \<Rightarrow>
          say SavedIds
            ((say (TrackingCodePrimary
                     (case map_of (kv # kvs) ''britishpennies.org'' of
                        Some mid \<Rightarrow> Some mid
                      | None \<Rightarrow> map_of (kv # kvs) ''britishpennies.com'')) w)
               \<lparr>ids_file := Some (json_dump (kv # kvs))\<rparr>))"

text \<open>\<open>main\<close> of \<^verbatim>\<open>google_setup.py\<close> (lines 208 to 241).\<close>

definition main :: "oauth \<Rightarrow> 'r api \<Rightarrow> 'r world \<Rightarrow> (exc + unit) \<times> 'r world" where
  "main lib api w =
     (let w0 = call InstallDeps w in
      case install_deps_error lib of
        Some e \<Rightarrow> (Inl e, w0)
      | None \<Rightarrow>
          (case get_credentials lib w0 of
             (Inl e, w1) \<Rightarrow> (Inl e, w1)
           | (Inr None, w1) \<Rightarrow> (Inr (), say FailedCredentials w1)
           | (Inr (Some creds), w1) \<Rightarrow>
               (case setup_analytics api (say AuthenticationSuccessful w1) of
                  (Inl e, w2) \<Rightarrow> (Inl e, w2)
                | (Inr measurement_ids, w2) \<Rightarrow>
                    (case setup_search_console api w2 of
                       (Inl e, w3) \<Rightarrow> (Inl e, w3)
                     | (Inr u, w3) \<Rightarrow>
                         (Inr (), say SetupComplete (print_tracking_code measurement_ids w3))))))"

text \<open>
  \<open>generate_tracking_code\<close> of \<^verbatim>\<open>setup_google_tools.py\<close> (lines 200 to 220): one
  snippet for each entry, in the order of the dictionary.
\<close>

definition generate_tracking_code :: "(string \<times> string) list \<Rightarrow> 'r world \<Rightarrow> 'r world" where
  "generate_tracking_code measurement_ids w =
     w\<lparr>console := console w @ map (\<lambda>(domain, mid). TrackingCode domain mid) measurement_ids\<rparr>"

text \<open>
  Lines 242 to 249 of \<^verbatim>\<open>setup_google_tools.py\<close>: for a dictionary that is not
  empty, the snippets are printed and the dictionary is written.
\<close>

definition save_ids :: "(string \<times> string) list option \<Rightarrow> 'r world \<Rightarrow> 'r world" where
  "save_ids measurement_ids w =
     (case measurement_ids of
        None \<Rightarrow> w
      | Some [] \<Rightarrow> w
      | Some (kv # kvs) \<Rightarrow>
          say SavedIds
            ((generate_tracking_code (kv # kvs) w)\<lparr>ids_file := Some (json_dump (kv # kvs))\<rparr>))"

text \<open>\<open>main\<close> of \<^verbatim>\<open>setup_google_tools.py\<close> (lines 223 to 255).\<close>

definition main_dict :: "oauth \<Rightarrow> 'r api \<Rightarrow> 'r world \<Rightarrow> (exc + unit) \<times> 'r world" where
  "main_dict lib api w =
     (case get_credentials_dict lib w of
        (Inl e, w1) \<Rightarrow> (Inl e, w1)
      | (Inr None, w1) \<Rightarrow> (Inr (), w1)
      | (Inr (Some creds), w1) \<Rightarrow>
          (case setup_analytics_dict api (say AuthenticationSuccessful w1) of
             (Inl e, w2) \<Rightarrow> (Inl e, w2)
           | (Inr measurement_ids, w2) \<Rightarrow>
               (case setup_search_console_dict api w2 of
                  (Inl e, w3) \<Rightarrow> (Inl e, w3)
                | (Inr res, w3) \<Rightarrow> (Inr (), say SetupComplete (save_ids measurement_ids w3)))))"

section \<open>Selection of the first match\<close>

text \<open>
  \<open>first_match P xs i\<close>: \<open>i\<close> is the position of the first element of \<open>xs\<close> that
  satisfies \<open>P\<close>.
\<close>

definition first_match :: "('a \<Rightarrow> bool) \<Rightarrow> 'a list \<Rightarrow> nat \<Rightarrow> bool" where
  "first_match P xs i = (i < length xs \<and> P (xs ! i) \<and> (\<forall>j < i. \<not> P (xs ! j)))"

section \<open>Resources that are there already\<close>

text \<open>The calls that ask the remote side to make something.\<close>

fun is_creation :: "call \<Rightarrow> bool" where
  "is_creation (CreateProperty display_name parent) = True"
| "is_creation (CreateDataStream parent uri) = True"
| "is_creation (SitesAdd url) = True"
| "is_creation c = False"

text \<open>
  \<open>already_set_up api account r domain\<close>: in the remote state \<open>r\<close> the listings
  succeed and hold what \<^verbatim>\<open>google_setup.py\<close> accepts for the domain, a matching
  property and a stream with web stream data under it. \<open>already_set_up_dict\<close> is the
  same for \<^verbatim>\<open>setup_google_tools.py\<close>: a matching property with its name and display
  name, and under it a stream whose URI ends with the domain and that carries a
  measurement ID.
\<close>

definition already_set_up :: "'r api \<Rightarrow> account \<Rightarrow> 'r \<Rightarrow> string \<Rightarrow> bool" where
  "already_set_up api account r domain =
     (case list_properties api r (''parent:'' @ acct_name account) of
        Inl e \<Rightarrow> False
      | Inr ps \<Rightarrow>
          (case find (property_matches domain) ps of
             None \<Rightarrow> False
           | Some p \<Rightarrow>
               property_truthy p \<and>
               (case list_data_streams api r (prop_name p) of
                  Inl e \<Rightarrow> False
                | Inr ss \<Rightarrow> find has_web_stream_data ss \<noteq> None)))"

definition already_set_up_dict :: "'r api \<Rightarrow> string \<Rightarrow> 'r \<Rightarrow> string \<Rightarrow> bool" where
  "already_set_up_dict api account_name r domain =
     (case properties_list api r (''parent:'' @ account_name) of
        Inl e \<Rightarrow> False
      | Inr pds \<Rightarrow>
          (case find (property_dict_matches domain) pds of
             None \<Rightarrow> False
           | Some pd \<Rightarrow>
               pd_displayName pd \<noteq> None \<and>
               (case pd_name pd of
                  None \<Rightarrow> False
                | Some n \<Rightarrow>
                    (case dataStreams_list api r n of
                       Inl e \<Rightarrow> False
                     | Inr sds \<Rightarrow>
                         (case find (stream_dict_matches domain) sds of
                            None \<Rightarrow> False
                          | Some sd \<Rightarrow>
                              (case stream_measurementId sd of
                                 Inl e \<Rightarrow> False
                               | Inr m \<Rightarrow> True))))))"

text \<open>
  \<open>sites_raise_exceptions api\<close>: whatever the registration of a site raises is an
  \<^verbatim>\<open>Exception\<close>. \<open>build_raises_exceptions api\<close>: the same for \<^verbatim>\<open>build\<close> of
  the search-console service.
\<close>

definition sites_raise_exceptions :: "'r api \<Rightarrow> bool" where
  "sites_raise_exceptions api =
     (\<forall>r url e r'. sites_add api r url = (Inl e, r') \<longrightarrow> is_exception e)"

definition build_raises_exceptions :: "'r api \<Rightarrow> bool" where
  "build_raises_exceptions api =
     (case build_error api ''searchconsole'' of None \<Rightarrow> True | Some e \<Rightarrow> is_exception e)"

section \<open>An example remote service\<close>

text \<open>
  A small remote service to run the scripts on: one list of accounts, one of
  properties, the data streams with the name of their property, and the registered
  sites. A created property is named after its display name, a created stream gets a
  measurement ID made from its URI, and registering a site twice is refused.
\<close>

record example_remote =
  accounts :: "account list"
  properties :: "property list"
  streams :: "(string \<times> data_stream) list"
  sites :: "string list"

definition account_to_dict :: "account \<Rightarrow> account_dict" where
  "account_to_dict a = \<lparr>ad_name = Some (acct_name a), ad_displayName = Some (acct_display_name a)\<rparr>"

definition property_to_dict :: "property \<Rightarrow> property_dict" where
  "property_to_dict p = \<lparr>pd_name = Some (prop_name p), pd_displayName = Some (prop_display_name p)\<rparr>"

definition stream_to_dict :: "data_stream \<Rightarrow> stream_dict" where
  "stream_to_dict s =
     \<lparr>sd_webStreamData =
        Some \<lparr>wd_defaultUri = Some (default_uri (web_stream_data s)),
              wd_measurementId = Some (measurement_id (web_stream_data s))\<rparr>\<rparr>"

definition example_create_property :: "example_remote \<Rightarrow> property \<Rightarrow> string \<Rightarrow> property \<times> example_remote" where
  "example_create_property r p parent =
     (let p' = p\<lparr>prop_name := ''properties/'' @ prop_display_name p\<rparr>
      in (p', r\<lparr>properties := properties r @ [p']\<rparr>))"

definition example_create_stream :: "example_remote \<Rightarrow> string \<Rightarrow> data_stream \<Rightarrow> data_stream \<times> example_remote" where
  "example_create_stream r parent s =
     (let s' = s\<lparr>web_stream_data :=
                   (web_stream_data s)\<lparr>measurement_id := ''G-'' @ default_uri (web_stream_data s)\<rparr>\<rparr>
      in (s', r\<lparr>streams := streams r @ [(parent, s')]\<rparr>))"

definition example_streams :: "example_remote \<Rightarrow> string \<Rightarrow> data_stream list" where
  "example_streams r parent = map snd (filter (\<lambda>(pn, s). pn = parent) (streams r))"

definition example_api :: "example_remote api" where
  "example_api =
     \<lparr>list_accounts = (\<lambda>r. Inr (accounts r)),
      list_properties = (\<lambda>r flt. Inr (properties r)),
      create_property = (\<lambda>r p parent. case example_create_property r p parent of (p', r') \<Rightarrow> (Inr p', r')),
      list_data_streams = (\<lambda>r parent. Inr (example_streams r parent)),
      create_data_stream = (\<lambda>r parent s. case example_create_stream r parent s of (s', r') \<Rightarrow> (Inr s', r')),
      build_error = (\<lambda>service. None),
      accounts_list = (\<lambda>r. Inr (map account_to_dict (accounts r))),
      properties_list = (\<lambda>r flt. Inr (map property_to_dict (properties r))),
      properties_create = (\<lambda>r p parent. case example_create_property r p parent of
                                            (p', r') \<Rightarrow> (Inr (property_to_dict p'), r')),
      dataStreams_list = (\<lambda>r parent. Inr (map stream_to_dict (example_streams r parent))),
      dataStreams_create = (\<lambda>r parent s. case example_create_stream r parent s of
                                             (s', r') \<Rightarrow> (Inr (stream_to_dict s'), r')),
      sites_add = (\<lambda>r url. if url \<in> set (sites r)
                             then (Inl (Raised ''HttpError'' ''Site already exists''), r)
                             else (Inr (), r\<lparr>sites := sites r @ [url]\<rparr>)),
      sites_get = (\<lambda>r url. if url \<in> set (sites r)
                             then Inr \<lparr>permissionLevel = Some ''siteUnverifiedUser''\<rparr>
                             else Inl (Raised ''HttpError'' ''404 Not Found''))\<rparr>"

text \<open>The same service when every creation of a property is refused.\<close>

definition refusing_api :: "example_remote api" where
  "refusing_api =
     example_api
       \<lparr>create_property := (\<lambda>r p parent. (Inl (Raised ''PermissionDenied'' ''403 denied''), r)),
        properties_create := (\<lambda>r p parent. (Inl (Raised ''HttpError'' ''403 denied''), r))\<rparr>"

text \<open>The same service when the streams of the \<^verbatim>\<open>.org\<close> property cannot be listed.\<close>

definition flaky_api :: "example_remote api" where
  "flaky_api =
     example_api
       \<lparr>list_data_streams := (\<lambda>r parent. if parent = ''properties/org''
                                          then Inl (Raised ''ServiceUnavailable'' ''503 unavailable'')
                                          else Inr (example_streams r parent)),
        dataStreams_list := (\<lambda>r parent. if parent = ''properties/org''
                                         then Inl (Raised ''HttpError'' ''503 unavailable'')
                                         else Inr (map stream_to_dict (example_streams r parent)))\<rparr>"

text \<open>The same service when every registration of a site is refused.\<close>

definition denying_api :: "example_remote api" where
  "denying_api =
     example_api\<lparr>sites_add := (\<lambda>r url. (Inl (Raised ''HttpError'' ''HttpError 403 Forbidden''), r))\<rparr>"

text \<open>The same service when the run is interrupted during a registration.\<close>

definition interrupted_api :: "example_remote api" where
  "interrupted_api =
     example_api\<lparr>sites_add := (\<lambda>r url. (Inl (Interrupt ''KeyboardInterrupt'' []), r))\<rparr>"

definition example_account :: account where
  "example_account = \<lparr>acct_name = ''accounts/1'', acct_display_name = ''Coins''\<rparr>"

definition com_property :: property where
  "com_property =
     \<lparr>prop_name = ''properties/com'', prop_display_name = ''British Pennies (britishpennies.com)'',
      time_zone = ''Europe/London'', currency_code = ''GBP''\<rparr>"

definition com_copy_property :: property where
  "com_copy_property =
     \<lparr>prop_name = ''properties/copy'', prop_display_name = ''Copy of britishpennies.com'',
      time_zone = ''Europe/London'', currency_code = ''GBP''\<rparr>"

definition org_property :: property where
  "org_property =
     \<lparr>prop_name = ''properties/org'', prop_display_name = ''British Pennies (britishpennies.org)'',
      time_zone = ''Europe/London'', currency_code = ''GBP''\<rparr>"

definition web_stream :: "string \<Rightarrow> string \<Rightarrow> data_stream" where
  "web_stream uri mid =
     \<lparr>stream_display_name = ''Web'',
      web_stream_data = \<lparr>measurement_id = mid, firebase_app_id = [], default_uri = uri\<rparr>\<rparr>"

text \<open>
  Remote states: nothing but an account; the \<^verbatim>\<open>.com\<close> property twice over, with
  two streams, and the \<^verbatim>\<open>.com\<close> site registered; both properties with one stream
  each.
\<close>

definition fresh_remote :: example_remote where
  "fresh_remote = \<lparr>accounts = [example_account], properties = [], streams = [], sites = []\<rparr>"

definition com_remote :: example_remote where
  "com_remote =
     \<lparr>accounts = [example_account],
      properties = [com_property, com_copy_property],
      streams = [(''properties/com'', web_stream ''https://britishpennies.com'' ''G-COM1''),
                 (''properties/com'', web_stream ''https://www.britishpennies.com'' ''G-COM2'')],
      sites = [''https://britishpennies.com/'']\<rparr>"

definition both_remote :: example_remote where
  "both_remote =
     \<lparr>accounts = [example_account],
      properties = [com_property, org_property],
      streams = [(''properties/com'', web_stream ''https://britishpennies.com'' ''G-COM1''),
                 (''properties/org'', web_stream ''https://shop.example'' ''G-SHOP'')],
      sites = []\<rparr>"

text \<open>The \<^verbatim>\<open>.org\<close> property alone, with its stream.\<close>

definition org_remote :: example_remote where
  "org_remote =
     \<lparr>accounts = [example_account],
      properties = [org_property],
      streams = [(''properties/org'', web_stream ''https://britishpennies.org'' ''G-ORG'')],
      sites = []\<rparr>"

text \<open>Both properties, each with a stream for its own domain.\<close>

definition ready_remote :: example_remote where
  "ready_remote =
     \<lparr>accounts = [example_account],
      properties = [com_property, org_property],
      streams = [(''properties/com'', web_stream ''https://britishpennies.com'' ''G-COM1''),
                 (''properties/org'', web_stream ''https://britishpennies.org'' ''G-ORG'')],
      sites = []\<rparr>"

definition start :: "'r \<Rightarrow> 'r world" where
  "start r =
     \<lparr>remote = r, calls = [], console = [], token_file = None, creds_file = None, ids_file = None\<rparr>"

text \<open>
  An OAuth library to run \<open>get_credentials\<close> on: the token file holds the token
  text, with the prefix \<^verbatim>\<open>expired:\<close> when it has expired; refreshing and the
  interactive flow succeed.
\<close>

definition example_oauth :: oauth where
  "example_oauth =
     \<lparr>from_authorized_user_file =
        (\<lambda>text. if startswith text ''expired:''
                 then Inr \<lparr>token = drop 8 text, refresh_token = Some ''r1'', valid = False, expired = True\<rparr>
                 else Inr \<lparr>token = text, refresh_token = Some ''r1'', valid = True, expired = False\<rparr>),
      refresh = (\<lambda>c. Inr (c\<lparr>token := ''fresh'', valid := True, expired := False\<rparr>)),
      to_json = token,
      json_load = (\<lambda>text. Inr [(''client_id'', text), (''client_secret'', ''s'')]),
      from_client_config = Inr,
      from_client_secrets_file = (\<lambda>text. Inr \<lparr>client_id = text, client_secret = ''s''\<rparr>),
      run_local_server =
        (\<lambda>flow port. Inr \<lparr>token = ''granted'', refresh_token = Some ''r2'', valid = True, expired = False\<rparr>),
      install_deps_error = None\<rparr>"

text \<open>The same library when the refresh and the interactive flow fail.\<close>

definition failing_oauth :: oauth where
  "failing_oauth =
     example_oauth
       \<lparr>refresh := (\<lambda>c. Inl (Raised ''RefreshError'' ''invalid_grant'')),
        run_local_server := (\<lambda>flow port. Inl (Raised ''AccessDeniedError'' ''access_denied''))\<rparr>"

section \<open>Basic facts\<close>

lemma call_simps [simp]:
  "remote (call c w) = remote w" "calls (call c w) = calls w @ [c]"
  "console (call c w) = console w" "token_file (call c w) = token_file w"
  "creds_file (call c w) = creds_file w" "ids_file (call c w) = ids_file w"
  by (simp_all add: call_def)

lemma say_simps [simp]:
  "remote (say m w) = remote w" "calls (say m w) = calls w"
  "console (say m w) = console w @ [m]" "token_file (say m w) = token_file w"
  "creds_file (say m w) = creds_file w" "ids_file (say m w) = ids_file w"
  by (simp_all add: say_def)

section \<open>The first match in a listing\<close>

lemma find_first_match: "first_match P xs i \<Longrightarrow> find P xs = Some (xs ! i)"
  unfolding first_match_def find_Some_iff by blast

text \<open>
  A property that matches a domain with a character other than the dot has a display
  name, so that \<^verbatim>\<open>if not prop\<close> sends it to the branch that reuses it. This holds
  for both configured domains.
\<close>

lemma contains_nonempty: "contains s sub \<Longrightarrow> sub \<noteq> [] \<Longrightarrow> s \<noteq> []"
  by (cases s) simp_all

lemma matching_property_truthy:
  assumes "property_matches domain p" and "replace_empty (CHR ''.'') domain \<noteq> []"
  shows "property_truthy p"
proof -
  from assms have "replace_empty (CHR ''.'') (replace_empty (CHR '' '') (lower (prop_display_name p))) \<noteq> []"
    unfolding property_matches_def by (rule contains_nonempty)
  then have "prop_display_name p \<noteq> []"
    by (auto simp add: replace_empty_def lower_def)
  then show ?thesis by (simp add: property_truthy_def)
qed

lemma configured_domains_nonempty:
  "\<forall>d \<in> set DOMAINS. replace_empty (CHR ''.'') d \<noteq> []"
  by (simp add: DOMAINS_def replace_empty_def)

lemma ensure_property_found:
  assumes "list_properties api (remote w) (''parent:'' @ acct_name account) = Inr ps"
    and "find (property_matches domain) ps = Some p" and "property_truthy p"
  shows "ensure_property api account domain w =
           (Inr p, say (FoundProperty (prop_display_name p))
                     (call (ListProperties (''parent:'' @ acct_name account)) w))"
  using assms by (simp add: ensure_property_def)

lemma ensure_stream_found:
  assumes "list_data_streams api (remote w) (prop_name prop) = Inr ss"
    and "find has_web_stream_data ss = Some s"
  shows "ensure_stream api prop domain mids w =
           (Inr (AList.update domain (measurement_id (web_stream_data s)) mids),
            say (FoundStream (measurement_id (web_stream_data s)))
              (call (ListDataStreams (prop_name prop)) w))"
  using assms by (simp add: ensure_stream_def)

lemma ensure_property_dict_found:
  assumes "properties_list api (remote w) (''parent:'' @ account_name) = Inr ps"
    and "find (property_dict_matches domain) ps = Some p"
    and "pd_displayName p = Some dn" and "pd_name p = Some n"
  shows "ensure_property_dict api account_name domain w =
           (Inr n, say (FoundProperty dn) (call (ListProperties (''parent:'' @ account_name)) w))"
  using assms by (simp add: ensure_property_dict_def property_dict_truthy_def)

lemma ensure_stream_dict_found:
  assumes "dataStreams_list api (remote w) pname = Inr ss"
    and "find (stream_dict_matches domain) ss = Some s"
    and "stream_measurementId s = Inr m"
  shows "ensure_stream_dict api pname domain mids w =
           (Inr (AList.update domain m mids), say (FoundStream m) (call (ListDataStreams pname) w))"
  using assms by (simp add: ensure_stream_dict_def)

text \<open>
  Claim C8. When the listing holds several resources that match, each script works on the
  first one in the order of the listing: the property at the first matching position
  (\<^verbatim>\<open>google_setup.py\<close>), the measurement ID of the first stream with web stream
  data, the name of the first matching property and the measurement ID of the first
  matching stream (\<^verbatim>\<open>setup_google_tools.py\<close>). Nothing is asked of the elements
  after that position: further matches are neither looked at nor refused.
\<close>

theorem first_match_selected:
  "(list_properties api (remote w) (''parent:'' @ acct_name account) = Inr ps
      \<and> first_match (property_matches domain) ps i \<and> property_truthy (ps ! i)
     \<longrightarrow> fst (ensure_property api account domain w) = Inr (ps ! i))
   \<and> (list_data_streams api (remote w) (prop_name prop) = Inr ss
      \<and> first_match has_web_stream_data ss k
     \<longrightarrow> fst (ensure_stream api prop domain mids w)
          = Inr (AList.update domain (measurement_id (web_stream_data (ss ! k))) mids))
   \<and> (properties_list api (remote w) (''parent:'' @ account_name) = Inr pds
      \<and> first_match (property_dict_matches domain) pds i
      \<and> pd_displayName (pds ! i) = Some dn \<and> pd_name (pds ! i) = Some n
     \<longrightarrow> fst (ensure_property_dict api account_name domain w) = Inr n)
   \<and> (dataStreams_list api (remote w) pname = Inr sds
      \<and> first_match (stream_dict_matches domain) sds k \<and> stream_measurementId (sds ! k) = Inr m
     \<longrightarrow> fst (ensure_stream_dict api pname domain mids w) = Inr (AList.update domain m mids))"
proof -
  have "list_properties api (remote w) (''parent:'' @ acct_name account) = Inr ps
      \<and> first_match (property_matches domain) ps i \<and> property_truthy (ps ! i)
     \<longrightarrow> fst (ensure_property api account domain w) = Inr (ps ! i)"
    using ensure_property_found [of api w account ps domain "ps ! i"]
      find_first_match [of "property_matches domain" ps i] by simp
  moreover have "list_data_streams api (remote w) (prop_name prop) = Inr ss
      \<and> first_match has_web_stream_data ss k
     \<longrightarrow> fst (ensure_stream api prop domain mids w)
          = Inr (AList.update domain (measurement_id (web_stream_data (ss ! k))) mids)"
    using ensure_stream_found [of api w "prop" ss "ss ! k" domain mids]
      find_first_match [of has_web_stream_data ss k] by simp
  moreover have "properties_list api (remote w) (''parent:'' @ account_name) = Inr pds
      \<and> first_match (property_dict_matches domain) pds i
      \<and> pd_displayName (pds ! i) = Some dn \<and> pd_name (pds ! i) = Some n
     \<longrightarrow> fst (ensure_property_dict api account_name domain w) = Inr n"
    using ensure_property_dict_found [of api w account_name pds domain "pds ! i" dn n]
      find_first_match [of "property_dict_matches domain" pds i] by simp
  moreover have "dataStreams_list api (remote w) pname = Inr sds
      \<and> first_match (stream_dict_matches domain) sds k \<and> stream_measurementId (sds ! k) = Inr m
     \<longrightarrow> fst (ensure_stream_dict api pname domain mids w) = Inr (AList.update domain m mids)"
    using ensure_stream_dict_found [of api w pname sds domain "sds ! k" m mids]
      find_first_match [of "stream_dict_matches domain" sds k] by simp
  ultimately show ?thesis by (intro conjI)
qed

lemma first_match_0: "P x \<Longrightarrow> first_match P (x # xs) 0"
  by (simp add: first_match_def)

theorem first_match_selected_witness:
  "property_matches ''britishpennies.com'' com_property
   \<and> property_matches ''britishpennies.com'' com_copy_property
   \<and> fst (ensure_property example_api example_account ''britishpennies.com'' (start com_remote))
       = Inr com_property
   \<and> fst (ensure_stream example_api com_property ''britishpennies.com'' [] (start com_remote))
       = Inr [(''britishpennies.com'', ''G-COM1'')]
   \<and> fst (ensure_property_dict example_api ''accounts/1'' ''britishpennies.com'' (start com_remote))
       = Inr ''properties/com''
   \<and> fst (ensure_stream_dict example_api ''properties/com'' ''britishpennies.com'' [] (start com_remote))
       = Inr [(''britishpennies.com'', ''G-COM1'')]"
proof -
  have m1: "property_matches ''britishpennies.com'' com_property"
    and m2: "property_matches ''britishpennies.com'' com_copy_property"
    by code_simp+
  have l1: "list_properties example_api (remote (start com_remote)) (''parent:'' @ acct_name example_account)
              = Inr [com_property, com_copy_property]"
    and l2: "list_data_streams example_api (remote (start com_remote)) (prop_name com_property)
              = Inr [web_stream ''https://britishpennies.com'' ''G-COM1'',
                     web_stream ''https://www.britishpennies.com'' ''G-COM2'']"
    and l3: "properties_list example_api (remote (start com_remote)) (''parent:'' @ ''accounts/1'')
              = Inr [property_to_dict com_property, property_to_dict com_copy_property]"
    and l4: "dataStreams_list example_api (remote (start com_remote)) ''properties/com''
              = Inr [stream_to_dict (web_stream ''https://britishpennies.com'' ''G-COM1''),
                     stream_to_dict (web_stream ''https://www.britishpennies.com'' ''G-COM2'')]"
    by code_simp+
  have f1: "first_match (property_matches ''britishpennies.com'') [com_property, com_copy_property] 0"
    and f2: "first_match has_web_stream_data [web_stream ''https://britishpennies.com'' ''G-COM1'',
                     web_stream ''https://www.britishpennies.com'' ''G-COM2''] 0"
    and f3: "first_match (property_dict_matches ''britishpennies.com'')
               [property_to_dict com_property, property_to_dict com_copy_property] 0"
    and f4: "first_match (stream_dict_matches ''britishpennies.com'')
               [stream_to_dict (web_stream ''https://britishpennies.com'' ''G-COM1''),
                stream_to_dict (web_stream ''https://www.britishpennies.com'' ''G-COM2'')] 0"
    by (rule first_match_0, code_simp)+
  have t: "property_truthy ([com_property, com_copy_property] ! 0)"
    and d: "pd_displayName ([property_to_dict com_property, property_to_dict com_copy_property] ! 0)
              = Some ''British Pennies (britishpennies.com)''"
    and n: "pd_name ([property_to_dict com_property, property_to_dict com_copy_property] ! 0)
              = Some ''properties/com''"
    and i: "stream_measurementId
              ([stream_to_dict (web_stream ''https://britishpennies.com'' ''G-COM1''),
                stream_to_dict (web_stream ''https://www.britishpennies.com'' ''G-COM2'')] ! 0)
              = Inr ''G-COM1''"
    by code_simp+
  note inst = first_match_selected
    [of example_api "start com_remote" example_account "[com_property, com_copy_property]"
        "''britishpennies.com''" 0 com_property
        "[web_stream ''https://britishpennies.com'' ''G-COM1'',
          web_stream ''https://www.britishpennies.com'' ''G-COM2'']" 0 "[]"
        "''accounts/1''" "[property_to_dict com_property, property_to_dict com_copy_property]"
        "''British Pennies (britishpennies.com)''" "''properties/com''"
        "''properties/com''"
        "[stream_to_dict (web_stream ''https://britishpennies.com'' ''G-COM1''),
          stream_to_dict (web_stream ''https://www.britishpennies.com'' ''G-COM2'')]"
        "''G-COM1''"]
  have u: "AList.update ''britishpennies.com'' (measurement_id (web_stream_data
             ([web_stream ''https://britishpennies.com'' ''G-COM1'',
               web_stream ''https://www.britishpennies.com'' ''G-COM2''] ! 0))) []
           = [(''britishpennies.com'', ''G-COM1'')]"
    and u2: "AList.update ''britishpennies.com'' ''G-COM1'' [] = [(''britishpennies.com'', ''G-COM1'')]"
    and u3: "[com_property, com_copy_property] ! 0 = com_property"
    by (simp_all add: web_stream_def)
  have r1: "fst (ensure_property example_api example_account ''britishpennies.com'' (start com_remote))
       = Inr com_property"
    using inst [THEN conjunct1, THEN mp, OF conjI [OF l1 conjI [OF f1 t]]] unfolding u3 .
  have r2: "fst (ensure_stream example_api com_property ''britishpennies.com'' [] (start com_remote))
       = Inr [(''britishpennies.com'', ''G-COM1'')]"
    using inst [THEN conjunct2, THEN conjunct1, THEN mp, OF conjI [OF l2 f2]] unfolding u .
  have r3: "fst (ensure_property_dict example_api ''accounts/1'' ''britishpennies.com'' (start com_remote))
       = Inr ''properties/com''"
    using inst [THEN conjunct2, THEN conjunct2, THEN conjunct1, THEN mp,
                OF conjI [OF l3 conjI [OF f3 conjI [OF d n]]]] .
  have r4: "fst (ensure_stream_dict example_api ''properties/com'' ''britishpennies.com'' [] (start com_remote))
       = Inr [(''britishpennies.com'', ''G-COM1'')]"
    using inst [THEN conjunct2, THEN conjunct2, THEN conjunct2, THEN mp,
                OF conjI [OF l4 conjI [OF f4 i]]] unfolding u2 .
  show ?thesis
    apply (rule conjI [OF m1])
    apply (rule conjI [OF m2])
    apply (rule conjI [OF r1])
    apply (rule conjI [OF r2])
    apply (rule conjI [OF r3])
    apply (rule r4)
    done
qed

section \<open>Substrings\<close>

lemma startswith_iff: "startswith s p \<longleftrightarrow> (\<exists>post. s = p @ post)"
  by (induction s p rule: startswith.induct) auto

lemma contains_iff: "contains s sub \<longleftrightarrow> (\<exists>pre post. s = pre @ sub @ post)"
proof (induction s)
  case Nil
  then show ?case by simp
next
  case (Cons c s)
  show ?case
  proof
    assume "contains (c # s) sub"
    then consider "startswith (c # s) sub" | "contains s sub" by auto
    then show "\<exists>pre post. c # s = pre @ sub @ post"
    proof cases
      case 1
      then obtain post where "c # s = sub @ post" using startswith_iff by blast
      then have "c # s = [] @ sub @ post" by simp
      then show ?thesis by blast
    next
      case 2
      then obtain pre post where "s = pre @ sub @ post" using Cons.IH by blast
      then have "c # s = (c # pre) @ sub @ post" by simp
      then show ?thesis by blast
    qed
  next
    assume "\<exists>pre post. c # s = pre @ sub @ post"
    then obtain pre post where eq: "c # s = pre @ sub @ post" by blast
    show "contains (c # s) sub"
    proof (cases pre)
      case Nil
      with eq have "startswith (c # s) sub" using startswith_iff by auto
      then show ?thesis by simp
    next
      case (Cons a pre')
      with eq have "s = pre' @ sub @ post" by simp
      then have "contains s sub" using Cons.IH by blast
      then show ?thesis by simp
    qed
  qed
qed

lemma endswith_iff: "endswith s suf \<longleftrightarrow> (\<exists>pre. s = pre @ suf)"
proof -
  have "endswith s suf \<longleftrightarrow> (\<exists>post. rev s = rev suf @ post)"
    by (simp add: endswith_def startswith_iff)
  also have "\<dots> \<longleftrightarrow> (\<exists>pre. s = pre @ suf)"
  proof
    assume "\<exists>post. rev s = rev suf @ post"
    then obtain post where "rev s = rev suf @ post" ..
    then have "rev (rev s) = rev (rev suf @ post)" by simp
    then have "s = rev post @ suf" by simp
    then show "\<exists>pre. s = pre @ suf" ..
  next
    assume "\<exists>pre. s = pre @ suf"
    then obtain pre where "s = pre @ suf" ..
    then have "rev s = rev suf @ rev pre" by simp
    then show "\<exists>post. rev s = rev suf @ post" ..
  qed
  finally show ?thesis .
qed

section \<open>The first web stream\<close>



section \<open>A stored token that is valid\<close>

text \<open>
  Claim C10. When the token file exists and loads as a credential that is valid,
  \<open>get_credentials\<close> of either script returns that credential and leaves the world as
  it was: no file is written and no call is made.
\<close>

theorem valid_token_no_write:
  assumes "token_file w = Some text"
    and "from_authorized_user_file lib text = Inr c"
    and "valid c"
  shows "get_credentials lib w = (Inr (Some c), w) \<and> get_credentials_dict lib w = (Inr (Some c), w)"
  using assms
  by (simp add: get_credentials_def get_credentials_dict_def load_token_def needs_auth_def)

theorem valid_token_no_write_witness:
  "get_credentials example_oauth ((start fresh_remote)\<lparr>token_file := Some ''tok''\<rparr>)
     = (Inr (Some \<lparr>token = ''tok'', refresh_token = Some ''r1'', valid = True, expired = False\<rparr>),
        (start fresh_remote)\<lparr>token_file := Some ''tok''\<rparr>)
   \<and> get_credentials_dict example_oauth ((start fresh_remote)\<lparr>token_file := Some ''tok''\<rparr>)
     = (Inr (Some \<lparr>token = ''tok'', refresh_token = Some ''r1'', valid = True, expired = False\<rparr>),
        (start fresh_remote)\<lparr>token_file := Some ''tok''\<rparr>)"
proof -
  have h1: "token_file ((start fresh_remote)\<lparr>token_file := Some ''tok''\<rparr>) = Some ''tok''"
    by simp
  have h2: "from_authorized_user_file example_oauth ''tok''
              = Inr \<lparr>token = ''tok'', refresh_token = Some ''r1'', valid = True, expired = False\<rparr>"
    by code_simp
  have h3: "valid \<lparr>token = ''tok'', refresh_token = Some ''r1'', valid = True, expired = False\<rparr>"
    by simp
  show ?thesis by (rule valid_token_no_write [OF h1 h2 h3])
qed

section \<open>A missing client-secret file\<close>

text \<open>
  Claim C6. When the stored token is absent, or loads as a credential that is neither
  valid nor expired with a refresh token, and the client-secret file does not exist, the
  operation fails: \<^verbatim>\<open>setup_google_tools.py\<close> prints the instructions and returns
  \<^verbatim>\<open>None\<close>, \<^verbatim>\<open>google_setup.py\<close> raises the FileNotFoundError of
  \<^verbatim>\<open>open\<close>. Neither returns a credential, runs the interactive flow or writes the
  token file.
\<close>

theorem missing_client_secret_fails:
  assumes "load_token lib w = Inr creds"
    and "needs_auth creds"
    and "refreshable creds = None"
    and "creds_file w = None"
  shows "get_credentials_dict lib w = (Inr None, say MissingCredentialsFile w)
         \<and> get_credentials lib w = (Inl (FileNotFoundError ''google-ads.json''), w)"
  using assms
  by (simp add: get_credentials_def get_credentials_dict_def interactive_flow_def
      interactive_flow_dict_def)

theorem missing_client_secret_fails_witness:
  "get_credentials_dict example_oauth (start fresh_remote)
     = (Inr None, say MissingCredentialsFile (start fresh_remote))
   \<and> get_credentials example_oauth (start fresh_remote)
     = (Inl (FileNotFoundError ''google-ads.json''), start fresh_remote)"
proof -
  have h1: "load_token example_oauth (start fresh_remote) = Inr None"
    and h2: "needs_auth None" and h3: "refreshable None = None"
    and h4: "creds_file (start fresh_remote) = None"
    by code_simp+
  show ?thesis by (rule missing_client_secret_fails [OF h1 h2 h3 h4])
qed

section \<open>Creation when nothing matches\<close>

lemma find_no_match: "(\<forall>x \<in> set xs. \<not> P x) \<Longrightarrow> find P xs = None"
  by (simp add: find_None_iff)

lemma create_new_property_eq:
  assumes "create_property api (remote w) (new_property domain) (acct_name account) = (res, r')"
  shows "create_new_property api account domain w =
           (case res of
              Inl e \<Rightarrow> (Inl e, (call (CreateProperty (''British Pennies ('' @ domain @ '')'') (acct_name account)) w)\<lparr>remote := r'\<rparr>)
            | Inr p \<Rightarrow> (Inr p, say (CreatedProperty (prop_display_name p))
                 ((call (CreateProperty (''British Pennies ('' @ domain @ '')'') (acct_name account)) w)\<lparr>remote := r'\<rparr>)))"
proof -
  have n: "prop_display_name (new_property domain) = ''British Pennies ('' @ domain @ '')''"
    by (simp add: new_property_def)
  show ?thesis
    unfolding create_new_property_def Let_def n call_simps assms
    by (cases res) simp_all
qed


lemma ensure_property_created:
  assumes "list_properties api (remote w) (''parent:'' @ acct_name account) = Inr ps"
    and "\<forall>p \<in> set ps. \<not> property_matches domain p"
    and "create_property api (remote w) (new_property domain) (acct_name account) = (res, r')"
  shows "fst (ensure_property api account domain w) = res
         \<and> calls (snd (ensure_property api account domain w))
           = calls w @ [ListProperties (''parent:'' @ acct_name account),
                        CreateProperty (''British Pennies ('' @ domain @ '')'') (acct_name account)]
         \<and> remote (snd (ensure_property api account domain w)) = r'"
proof -
  let ?w1 = "call (ListProperties (''parent:'' @ acct_name account)) w"
  have c: "create_property api (remote ?w1) (new_property domain) (acct_name account) = (res, r')"
    using assms(3) by simp
  have f: "find (property_matches domain) ps = None"
    by (rule find_no_match [OF assms(2)])
  have "ensure_property api account domain w = create_new_property api account domain ?w1"
    using assms(1) f by (simp add: ensure_property_def)
  then show ?thesis
    unfolding create_new_property_eq [OF c] by (cases res) simp_all
qed

lemma ensure_stream_created:
  assumes "list_data_streams api (remote w) (prop_name p) = Inr ss"
    and "\<forall>s \<in> set ss. \<not> has_web_stream_data s"
    and "create_data_stream api (remote w) (prop_name p) (new_data_stream domain) = (res, r')"
  shows "fst (ensure_stream api p domain mids w)
           = (case res of
                Inl e \<Rightarrow> Inl e
              | Inr stream \<Rightarrow> Inr (AList.update domain (measurement_id (web_stream_data stream)) mids))
         \<and> calls (snd (ensure_stream api p domain mids w))
           = calls w @ [ListDataStreams (prop_name p),
                        CreateDataStream (prop_name p) (''https://'' @ domain)]
         \<and> remote (snd (ensure_stream api p domain mids w)) = r'"
proof -
  have f: "find has_web_stream_data ss = None"
    by (rule find_no_match [OF assms(2)])
  have u: "default_uri (web_stream_data (new_data_stream domain)) = ''https://'' @ domain"
    by (simp add: new_data_stream_def)
  show ?thesis
    using assms(1,3) f by (cases res) (simp_all add: ensure_stream_def u)
qed

lemma ensure_property_dict_created:
  assumes "properties_list api (remote w) (''parent:'' @ account_name) = Inr pds"
    and "\<forall>p \<in> set pds. \<not> property_dict_matches domain p"
    and "properties_create api (remote w) (new_property domain) account_name = (res, r')"
  shows "fst (ensure_property_dict api account_name domain w)
           = (case res of
                Inl e \<Rightarrow> Inl e
              | Inr result \<Rightarrow>
                  (case pd_name result of
                     None \<Rightarrow> Inl (KeyError ''name'')
                   | Some n \<Rightarrow>
                       (case pd_displayName result of
                          None \<Rightarrow> Inl (KeyError ''displayName'')
                        | Some dn \<Rightarrow> Inr n)))
         \<and> calls (snd (ensure_property_dict api account_name domain w))
           = calls w @ [ListProperties (''parent:'' @ account_name),
                        CreateProperty (''British Pennies ('' @ domain @ '')'') account_name]
         \<and> remote (snd (ensure_property_dict api account_name domain w)) = r'"
proof -
  have f: "find (property_dict_matches domain) pds = None"
    by (rule find_no_match [OF assms(2)])
  have n: "prop_display_name (new_property domain) = ''British Pennies ('' @ domain @ '')''"
    by (simp add: new_property_def)
  have "ensure_property_dict api account_name domain w
          = create_property_dict api account_name domain
              (call (ListProperties (''parent:'' @ account_name)) w)"
    using assms(1) f by (simp add: ensure_property_dict_def)
  then show ?thesis
    using assms(3)
    by (cases res) (simp_all add: create_property_dict_def n split: option.splits)
qed

lemma ensure_stream_dict_created:
  assumes "dataStreams_list api (remote w) pname = Inr sds"
    and "\<forall>s \<in> set sds. \<not> stream_dict_matches domain s"
    and "dataStreams_create api (remote w) pname (new_data_stream domain) = (res, r')"
  shows "fst (ensure_stream_dict api pname domain mids w)
           = (case res of
                Inl e \<Rightarrow> Inl e
              | Inr stream \<Rightarrow>
                  (case stream_measurementId stream of
                     Inl e \<Rightarrow> Inl e
                   | Inr m \<Rightarrow> Inr (AList.update domain m mids)))
         \<and> calls (snd (ensure_stream_dict api pname domain mids w))
           = calls w @ [ListDataStreams pname, CreateDataStream pname (''https://'' @ domain)]
         \<and> remote (snd (ensure_stream_dict api pname domain mids w)) = r'"
proof -
  have f: "find (stream_dict_matches domain) sds = None"
    by (rule find_no_match [OF assms(2)])
  have u: "default_uri (web_stream_data (new_data_stream domain)) = ''https://'' @ domain"
    by (simp add: new_data_stream_def)
  show ?thesis
    using assms(1,3) f
    by (cases res) (simp_all add: ensure_stream_dict_def u split: sum.splits)
qed




section \<open>Errors of the site registration\<close>

lemma add_site_caught:
  assumes "sites_add api (remote w) url = (Inl e, r')" and "is_exception e"
  shows "fst (add_site api url w) = Inr ()
         \<and> console (snd (add_site api url w))
             = console w @ [if contains (lower (str_exc e)) ''already''
                            then AlreadyExists url else ErrorLine e]
         \<and> fst (add_site_dict api url w) = Inr ()
         \<and> console (snd (add_site_dict api url w))
             = console w @ [if contains (lower (str_exc e)) ''already exists'' \<or> contains (str_exc e) ''403''
                            then AlreadyExistsOrDenied else ErrorLine e]"
  using assms by (simp add: add_site_def add_site_dict_def)

lemma add_site_not_caught:
  assumes "sites_add api (remote w) url = (Inl e, r')" and "\<not> is_exception e"
  shows "add_site api url w = (Inl e, (call (SitesAdd url) w)\<lparr>remote := r'\<rparr>)
         \<and> add_site_dict api url w = (Inl e, (call (SitesAdd url) w)\<lparr>remote := r'\<rparr>)"
  using assms by (simp add: add_site_def add_site_dict_def)

text \<open>
  Claim C7. When the registration of a site fails with an error, that is, raises an
  \<^verbatim>\<open>Exception\<close>, the handler prints one line, chosen by a substring test on the text
  of the exception, and the function goes on. \<^verbatim>\<open>google_setup.py\<close> prints the warning
  exactly when the lower-cased text contains \<^verbatim>\<open>already\<close>, and the exception itself
  otherwise; \<^verbatim>\<open>setup_google_tools.py\<close> prints its warning exactly when the
  lower-cased text contains \<^verbatim>\<open>already exists\<close> or the text contains \<^verbatim>\<open>403\<close>
  (the access-denied case), and the exception itself otherwise. \<open>contains\<close> is the
  substring relation. What is raised and is no \<^verbatim>\<open>Exception\<close> (an interrupt) is not
  classified: nothing is printed and it leaves the function.
\<close>

theorem registration_error_classified:
  "(sites_add api (remote w) url = (Inl e, r') \<and> is_exception e
     \<longrightarrow> fst (add_site api url w) = Inr ()
         \<and> console (snd (add_site api url w))
             = console w @ [if contains (lower (str_exc e)) ''already''
                            then AlreadyExists url else ErrorLine e]
         \<and> fst (add_site_dict api url w) = Inr ()
         \<and> console (snd (add_site_dict api url w))
             = console w @ [if contains (lower (str_exc e)) ''already exists'' \<or> contains (str_exc e) ''403''
                            then AlreadyExistsOrDenied else ErrorLine e])
   \<and> (sites_add api (remote w) url = (Inl e, r') \<and> \<not> is_exception e
     \<longrightarrow> add_site api url w = (Inl e, (call (SitesAdd url) w)\<lparr>remote := r'\<rparr>)
         \<and> add_site_dict api url w = (Inl e, (call (SitesAdd url) w)\<lparr>remote := r'\<rparr>))
   \<and> (contains (lower (str_exc e)) ''already''
        = (\<exists>pre post. lower (str_exc e) = pre @ ''already'' @ post))
   \<and> (contains (lower (str_exc e)) ''already exists''
        = (\<exists>pre post. lower (str_exc e) = pre @ ''already exists'' @ post))
   \<and> (contains (str_exc e) ''403'' = (\<exists>pre post. str_exc e = pre @ ''403'' @ post))"
  apply (rule conjI)
   apply (intro impI, elim conjE, rule add_site_caught; assumption)
  apply (rule conjI)
   apply (intro impI, elim conjE, rule add_site_not_caught; assumption)
  apply (rule conjI)
   apply (rule contains_iff)
  apply (rule conjI)
   apply (rule contains_iff)
  apply (rule contains_iff)
  done

theorem registration_error_classified_witness:
  "console (snd (add_site example_api ''https://britishpennies.com/'' (start com_remote)))
     = [AlreadyExists ''https://britishpennies.com/'']
   \<and> console (snd (add_site_dict example_api ''https://britishpennies.com/'' (start com_remote)))
     = [AlreadyExistsOrDenied]
   \<and> console (snd (add_site denying_api ''https://britishpennies.com/'' (start fresh_remote)))
     = [ErrorLine (Raised ''HttpError'' ''HttpError 403 Forbidden'')]
   \<and> console (snd (add_site_dict denying_api ''https://britishpennies.com/'' (start fresh_remote)))
     = [AlreadyExistsOrDenied]
   \<and> fst (add_site interrupted_api ''https://britishpennies.com/'' (start fresh_remote))
     = Inl (Interrupt ''KeyboardInterrupt'' [])
   \<and> console (snd (add_site_dict interrupted_api ''https://britishpennies.com/'' (start fresh_remote)))
     = []"
proof -
  let ?u = "''https://britishpennies.com/''"
  have h1: "sites_add example_api (remote (start com_remote)) ?u
              = (Inl (Raised ''HttpError'' ''Site already exists''), com_remote)"
    and h2: "sites_add denying_api (remote (start fresh_remote)) ?u
              = (Inl (Raised ''HttpError'' ''HttpError 403 Forbidden''), fresh_remote)"
    and h3: "sites_add interrupted_api (remote (start fresh_remote)) ?u
              = (Inl (Interrupt ''KeyboardInterrupt'' []), fresh_remote)"
    by code_simp+
  have x1: "is_exception (Raised ''HttpError'' ''Site already exists'')"
    and x2: "is_exception (Raised ''HttpError'' ''HttpError 403 Forbidden'')"
    and x3: "\<not> is_exception (Interrupt ''KeyboardInterrupt'' [])"
    by simp_all
  have e1: "console (start com_remote) @
              [if contains (lower (str_exc (Raised ''HttpError'' ''Site already exists''))) ''already''
               then AlreadyExists ?u else ErrorLine (Raised ''HttpError'' ''Site already exists'')]
            = [AlreadyExists ?u]"
    and e2: "console (start com_remote) @
              [if contains (lower (str_exc (Raised ''HttpError'' ''Site already exists''))) ''already exists''
                  \<or> contains (str_exc (Raised ''HttpError'' ''Site already exists'')) ''403''
               then AlreadyExistsOrDenied else ErrorLine (Raised ''HttpError'' ''Site already exists'')]
            = [AlreadyExistsOrDenied]"
    and e3: "console (start fresh_remote) @
              [if contains (lower (str_exc (Raised ''HttpError'' ''HttpError 403 Forbidden''))) ''already''
               then AlreadyExists ?u else ErrorLine (Raised ''HttpError'' ''HttpError 403 Forbidden'')]
            = [ErrorLine (Raised ''HttpError'' ''HttpError 403 Forbidden'')]"
    and e4: "console (start fresh_remote) @
              [if contains (lower (str_exc (Raised ''HttpError'' ''HttpError 403 Forbidden''))) ''already exists''
                  \<or> contains (str_exc (Raised ''HttpError'' ''HttpError 403 Forbidden'')) ''403''
               then AlreadyExistsOrDenied else ErrorLine (Raised ''HttpError'' ''HttpError 403 Forbidden'')]
            = [AlreadyExistsOrDenied]"
    and e5: "console ((call (SitesAdd ?u) (start fresh_remote))\<lparr>remote := fresh_remote\<rparr>) = []"
    by code_simp+
  note a = registration_error_classified [THEN conjunct1, THEN mp, OF conjI [OF h1 x1]]
  note b = registration_error_classified [THEN conjunct1, THEN mp, OF conjI [OF h2 x2]]
  note c = registration_error_classified [THEN conjunct2, THEN conjunct1, THEN mp, OF conjI [OF h3 x3]]
  have s1: "console (snd (add_site example_api ?u (start com_remote))) = [AlreadyExists ?u]"
    using a [THEN conjunct2, THEN conjunct1] unfolding e1 .
  have s2: "console (snd (add_site_dict example_api ?u (start com_remote))) = [AlreadyExistsOrDenied]"
    using a [THEN conjunct2, THEN conjunct2, THEN conjunct2] unfolding e2 .
  have s3: "console (snd (add_site denying_api ?u (start fresh_remote)))
              = [ErrorLine (Raised ''HttpError'' ''HttpError 403 Forbidden'')]"
    using b [THEN conjunct2, THEN conjunct1] unfolding e3 .
  have s4: "console (snd (add_site_dict denying_api ?u (start fresh_remote))) = [AlreadyExistsOrDenied]"
    using b [THEN conjunct2, THEN conjunct2, THEN conjunct2] unfolding e4 .
  have s5: "fst (add_site interrupted_api ?u (start fresh_remote)) = Inl (Interrupt ''KeyboardInterrupt'' [])"
    unfolding c [THEN conjunct1] by simp
  have s6: "console (snd (add_site_dict interrupted_api ?u (start fresh_remote))) = []"
    unfolding c [THEN conjunct2] snd_conv e5 ..
  show ?thesis
    by (rule conjI [OF s1 conjI [OF s2 conjI [OF s3 conjI [OF s4 conjI [OF s5 s6]]]]])
qed

section \<open>Refreshing and acquiring credentials\<close>

lemma save_token_simps [simp]:
  "token_file (save_token lib c w) = Some (to_json lib c)"
  "calls (save_token lib c w) = calls w" "remote (save_token lib c w) = remote w"
  "console (save_token lib c w) = console w" "creds_file (save_token lib c w) = creds_file w"
  "ids_file (save_token lib c w) = ids_file w"
  by (simp_all add: save_token_def)

lemma refresh_branch_frame:
  "token_file (snd (refresh_branch lib c w)) = token_file w"
  "ids_file (snd (refresh_branch lib c w)) = ids_file w"
  "remote (snd (refresh_branch lib c w)) = remote w"
  by (simp_all add: refresh_branch_def Let_def split: sum.splits)

lemma interactive_flow_frame:
  "token_file (snd (interactive_flow lib w)) = token_file w"
  "ids_file (snd (interactive_flow lib w)) = ids_file w"
  "remote (snd (interactive_flow lib w)) = remote w"
  by (simp_all add: interactive_flow_def Let_def split: sum.splits option.splits)

lemma interactive_flow_dict_frame:
  "token_file (snd (interactive_flow_dict lib w)) = token_file w"
  "ids_file (snd (interactive_flow_dict lib w)) = ids_file w"
  "remote (snd (interactive_flow_dict lib w)) = remote w"
  by (simp_all add: interactive_flow_dict_def Let_def split: sum.splits option.splits)

lemma refresh_path:
  assumes "load_token lib w = Inr creds" and "needs_auth creds"
    and "refreshable creds = Some c" and "refresh lib c = Inr c'"
  shows "get_credentials lib w
           = (Inr (Some c'), say SavedCredentials (save_token lib c' (call Refresh w)))
         \<and> get_credentials_dict lib w = (Inr (Some c'), save_token lib c' (call Refresh w))"
  using assms by (simp add: get_credentials_def get_credentials_dict_def refresh_branch_def)

lemma flow_path_dict:
  assumes "load_token lib w = Inr creds" and "needs_auth creds" and "refreshable creds = None"
    and "creds_file w = Some text" and "from_client_secrets_file lib text = Inr flow"
    and "run_local_server lib flow 0 = Inr c'"
  shows "get_credentials_dict lib w = (Inr (Some c'), save_token lib c' (call RunLocalServer w))"
  using assms by (simp add: get_credentials_dict_def interactive_flow_dict_def)

lemma flow_path:
  assumes "load_token lib w = Inr creds" and "needs_auth creds" and "refreshable creds = None"
    and "creds_file w = Some text" and "json_load lib text = Inr ads_creds"
    and "map_of ads_creds ''client_id'' = Some cid"
    and "map_of ads_creds ''client_secret'' = Some secret"
    and "from_client_config lib \<lparr>client_id = cid, client_secret = secret\<rparr> = Inr flow"
    and "run_local_server lib flow 8080 = Inr c'"
  shows "get_credentials lib w
           = (Inr (Some c'), say SavedCredentials (save_token lib c' (call RunLocalServer w)))"
  using assms by (simp add: get_credentials_def interactive_flow_def)

lemma no_credential_no_write:
  assumes "\<forall>c. fst (get_credentials lib w) \<noteq> Inr (Some c)"
  shows "token_file (snd (get_credentials lib w)) = token_file w"
proof (cases "load_token lib w")
  case (Inl e)
  then show ?thesis by (simp add: get_credentials_def)
next
  case (Inr creds)
  show ?thesis
  proof (cases "needs_auth creds")
    case False
    with Inr show ?thesis by (simp add: get_credentials_def)
  next
    case True
    let ?step = "case refreshable creds of
                   Some c \<Rightarrow> refresh_branch lib c w
                 | None \<Rightarrow> interactive_flow lib w"
    have fr: "token_file (snd ?step) = token_file w"
      by (cases "refreshable creds") (simp_all add: refresh_branch_frame interactive_flow_frame)
    obtain res w' where st: "?step = (res, w')" by (cases ?step)
    with fr have tw: "token_file w' = token_file w" by simp
    from assms Inr True st have "\<exists>e. res = Inl e"
      by (cases res) (simp_all add: get_credentials_def)
    then obtain e where "res = Inl e" ..
    with Inr True st tw show ?thesis by (simp add: get_credentials_def)
  qed
qed

lemma no_credential_no_write_dict:
  assumes "\<forall>c. fst (get_credentials_dict lib w) \<noteq> Inr (Some c)"
  shows "token_file (snd (get_credentials_dict lib w)) = token_file w"
proof (cases "load_token lib w")
  case (Inl e)
  then show ?thesis by (simp add: get_credentials_dict_def)
next
  case (Inr creds)
  show ?thesis
  proof (cases "needs_auth creds")
    case False
    with Inr show ?thesis by (simp add: get_credentials_dict_def)
  next
    case True
    show ?thesis
    proof (cases "refreshable creds")
      case (Some c)
      obtain res w' where st: "refresh_branch lib c w = (res, w')" by (cases "refresh_branch lib c w")
      with refresh_branch_frame(1) [of lib c w] have tw: "token_file w' = token_file w" by simp
      from assms Inr True Some st have "\<exists>e. res = Inl e"
        by (cases res) (simp_all add: get_credentials_dict_def)
      then obtain e where "res = Inl e" ..
      with Inr True Some st tw show ?thesis by (simp add: get_credentials_dict_def)
    next
      case None
      obtain res w' where st: "interactive_flow_dict lib w = (res, w')"
        by (cases "interactive_flow_dict lib w")
      with interactive_flow_dict_frame(1) [of lib w] have tw: "token_file w' = token_file w" by simp
      from assms Inr True None st have "res \<noteq> Inr (Some c)" for c
        by (cases res) (auto simp add: get_credentials_dict_def split: option.splits)
      then have "(\<exists>e. res = Inl e) \<or> res = Inr None"
        by (cases res) auto
      with Inr True None st tw show ?thesis by (auto simp add: get_credentials_dict_def)
    qed
  qed
qed



lemma refresh_ok:
  assumes "load_token lib w = Inr creds" and "needs_auth creds"
    and "refreshable creds = Some c" and "refresh lib c = Inr c'"
  shows "fst (get_credentials lib w) = Inr (Some c')
         \<and> token_file (snd (get_credentials lib w)) = Some (to_json lib c')
         \<and> calls (snd (get_credentials lib w)) = calls w @ [Refresh]
         \<and> fst (get_credentials_dict lib w) = Inr (Some c')
         \<and> token_file (snd (get_credentials_dict lib w)) = Some (to_json lib c')
         \<and> calls (snd (get_credentials_dict lib w)) = calls w @ [Refresh]"
  using refresh_path [OF assms] by simp

lemma flow_ok_dict:
  assumes "load_token lib w = Inr creds" and "needs_auth creds" and "refreshable creds = None"
    and "creds_file w = Some text" and "from_client_secrets_file lib text = Inr flow"
    and "run_local_server lib flow 0 = Inr c'"
  shows "fst (get_credentials_dict lib w) = Inr (Some c')
         \<and> token_file (snd (get_credentials_dict lib w)) = Some (to_json lib c')
         \<and> calls (snd (get_credentials_dict lib w)) = calls w @ [RunLocalServer]"
  using flow_path_dict [OF assms] by simp

lemma flow_ok:
  assumes "load_token lib w = Inr creds" and "needs_auth creds" and "refreshable creds = None"
    and "creds_file w = Some text" and "json_load lib text = Inr ads_creds"
    and "map_of ads_creds ''client_id'' = Some cid"
    and "map_of ads_creds ''client_secret'' = Some secret"
    and "from_client_config lib \<lparr>client_id = cid, client_secret = secret\<rparr> = Inr flow"
    and "run_local_server lib flow 8080 = Inr c'"
  shows "fst (get_credentials lib w) = Inr (Some c')
         \<and> token_file (snd (get_credentials lib w)) = Some (to_json lib c')
         \<and> calls (snd (get_credentials lib w)) = calls w @ [RunLocalServer]"
  using flow_path [OF assms] by simp

lemma refresh_raises:
  assumes "load_token lib w = Inr creds" and "needs_auth creds"
    and "refreshable creds = Some c" and "refresh lib c = Inl e"
  shows "get_credentials lib w = (Inl e, call Refresh w)
         \<and> get_credentials_dict lib w = (Inl e, call Refresh w)"
  using assms by (simp add: get_credentials_def get_credentials_dict_def refresh_branch_def)

lemma flow_raises_dict:
  assumes "load_token lib w = Inr creds" and "needs_auth creds" and "refreshable creds = None"
    and "creds_file w = Some text" and "from_client_secrets_file lib text = Inr flow"
    and "run_local_server lib flow 0 = Inl e"
  shows "get_credentials_dict lib w = (Inl e, call RunLocalServer w)"
  using assms by (simp add: get_credentials_dict_def interactive_flow_dict_def)

lemma secrets_unreadable_dict:
  assumes "load_token lib w = Inr creds" and "needs_auth creds" and "refreshable creds = None"
    and "creds_file w = Some text" and "from_client_secrets_file lib text = Inl e"
  shows "get_credentials_dict lib w = (Inl e, w)"
  using assms by (simp add: get_credentials_dict_def interactive_flow_dict_def)

lemma secrets_missing_dict:
  assumes "load_token lib w = Inr creds" and "needs_auth creds" and "refreshable creds = None"
    and "creds_file w = None"
  shows "get_credentials_dict lib w = (Inr None, say MissingCredentialsFile w)"
  using assms by (simp add: get_credentials_dict_def interactive_flow_dict_def)

lemma flow_raises:
  assumes "load_token lib w = Inr creds" and "needs_auth creds" and "refreshable creds = None"
    and "creds_file w = Some text" and "json_load lib text = Inr ads_creds"
    and "map_of ads_creds ''client_id'' = Some cid"
    and "map_of ads_creds ''client_secret'' = Some secret"
    and "from_client_config lib \<lparr>client_id = cid, client_secret = secret\<rparr> = Inr flow"
    and "run_local_server lib flow 8080 = Inl e"
  shows "get_credentials lib w = (Inl e, call RunLocalServer w)"
  using assms by (simp add: get_credentials_def interactive_flow_def)

lemma secrets_missing:
  assumes "load_token lib w = Inr creds" and "needs_auth creds" and "refreshable creds = None"
    and "creds_file w = None"
  shows "get_credentials lib w = (Inl (FileNotFoundError ''google-ads.json''), w)"
  using assms by (simp add: get_credentials_def interactive_flow_def)

lemma secrets_unreadable:
  assumes "load_token lib w = Inr creds" and "needs_auth creds" and "refreshable creds = None"
    and "creds_file w = Some text" and "json_load lib text = Inl e"
  shows "get_credentials lib w = (Inl e, w)"
  using assms by (simp add: get_credentials_def interactive_flow_def)

lemma client_id_missing:
  assumes "load_token lib w = Inr creds" and "needs_auth creds" and "refreshable creds = None"
    and "creds_file w = Some text" and "json_load lib text = Inr ads_creds"
    and "map_of ads_creds ''client_id'' = None"
  shows "get_credentials lib w = (Inl (KeyError ''client_id''), w)"
  using assms by (simp add: get_credentials_def interactive_flow_def)

lemma client_secret_missing:
  assumes "load_token lib w = Inr creds" and "needs_auth creds" and "refreshable creds = None"
    and "creds_file w = Some text" and "json_load lib text = Inr ads_creds"
    and "map_of ads_creds ''client_id'' = Some cid"
    and "map_of ads_creds ''client_secret'' = None"
  shows "get_credentials lib w = (Inl (KeyError ''client_secret''), w)"
  using assms by (simp add: get_credentials_def interactive_flow_def)

lemma client_config_refused:
  assumes "load_token lib w = Inr creds" and "needs_auth creds" and "refreshable creds = None"
    and "creds_file w = Some text" and "json_load lib text = Inr ads_creds"
    and "map_of ads_creds ''client_id'' = Some cid"
    and "map_of ads_creds ''client_secret'' = Some secret"
    and "from_client_config lib \<lparr>client_id = cid, client_secret = secret\<rparr> = Inl e"
  shows "get_credentials lib w = (Inl e, w)"
  using assms by (simp add: get_credentials_def interactive_flow_def)

lemma token_unreadable:
  assumes "load_token lib w = Inl e"
  shows "get_credentials lib w = (Inl e, w) \<and> get_credentials_dict lib w = (Inl e, w)"
  using assms by (simp add: get_credentials_def get_credentials_dict_def)

text \<open>
  Claim C5 says that a token that is missing or not valid is either refreshed or replaced
  through the interactive flow, and that the token file is written in both cases. With no
  token file and no client-secret file neither happens: \<^verbatim>\<open>setup_google_tools.py\<close>
  returns \<^verbatim>\<open>None\<close> from its guard, \<^verbatim>\<open>google_setup.py\<close> raises from
  \<^verbatim>\<open>open\<close>, no flow is run and the token file is still absent.
\<close>

theorem missing_secret_no_flow_counterexample:
  "token_file (start fresh_remote) = None
   \<and> get_credentials_dict example_oauth (start fresh_remote)
       = (Inr None, say MissingCredentialsFile (start fresh_remote))
   \<and> calls (snd (get_credentials_dict example_oauth (start fresh_remote))) = []
   \<and> token_file (snd (get_credentials_dict example_oauth (start fresh_remote))) = None
   \<and> get_credentials example_oauth (start fresh_remote)
       = (Inl (FileNotFoundError ''google-ads.json''), start fresh_remote)
   \<and> calls (snd (get_credentials example_oauth (start fresh_remote))) = []
   \<and> token_file (snd (get_credentials example_oauth (start fresh_remote))) = None"
  by code_simp

text \<open>
  Claim C5, as amended. When the stored token is missing or not valid: if it has expired
  and carries a refresh token, it is refreshed and the interactive flow is not run;
  otherwise, when the client-secret file exists and loads, the interactive flow is run.
  Whenever the refresh or the flow returns a credential, that credential is the result
  and its serialisation replaces the token file. A call that returns no credential leaves
  the token file as it was, and every failing path returns no credential: when the refresh
  raises, both scripts end with that exception after the refresh call alone; when the flow
  raises, with that exception after the flow call alone; when the client-secret file is
  missing, \<^verbatim>\<open>setup_google_tools.py\<close> returns \<^verbatim>\<open>None\<close> after its
  message and \<^verbatim>\<open>google_setup.py\<close> raises \<^verbatim>\<open>FileNotFoundError\<close>; when the
  file does not load, lacks a key or is refused by the flow's constructor, or the token
  file itself does not load, the exception is the result and the world is unchanged.
\<close>

theorem token_written_on_success:
  "(load_token lib w = Inr creds \<and> needs_auth creds \<and> refreshable creds = Some c
      \<and> refresh lib c = Inr c'
     \<longrightarrow> fst (get_credentials lib w) = Inr (Some c')
         \<and> token_file (snd (get_credentials lib w)) = Some (to_json lib c')
         \<and> calls (snd (get_credentials lib w)) = calls w @ [Refresh]
         \<and> fst (get_credentials_dict lib w) = Inr (Some c')
         \<and> token_file (snd (get_credentials_dict lib w)) = Some (to_json lib c')
         \<and> calls (snd (get_credentials_dict lib w)) = calls w @ [Refresh])
   \<and> (load_token lib w = Inr creds \<and> needs_auth creds \<and> refreshable creds = None
      \<and> creds_file w = Some text \<and> from_client_secrets_file lib text = Inr flow
      \<and> run_local_server lib flow 0 = Inr c'
     \<longrightarrow> fst (get_credentials_dict lib w) = Inr (Some c')
         \<and> token_file (snd (get_credentials_dict lib w)) = Some (to_json lib c')
         \<and> calls (snd (get_credentials_dict lib w)) = calls w @ [RunLocalServer])
   \<and> (load_token lib w = Inr creds \<and> needs_auth creds \<and> refreshable creds = None
      \<and> creds_file w = Some text \<and> json_load lib text = Inr ads_creds
      \<and> map_of ads_creds ''client_id'' = Some cid
      \<and> map_of ads_creds ''client_secret'' = Some secret
      \<and> from_client_config lib \<lparr>client_id = cid, client_secret = secret\<rparr> = Inr flow
      \<and> run_local_server lib flow 8080 = Inr c'
     \<longrightarrow> fst (get_credentials lib w) = Inr (Some c')
         \<and> token_file (snd (get_credentials lib w)) = Some (to_json lib c')
         \<and> calls (snd (get_credentials lib w)) = calls w @ [RunLocalServer])
   \<and> ((\<forall>c. fst (get_credentials lib w) \<noteq> Inr (Some c))
     \<longrightarrow> token_file (snd (get_credentials lib w)) = token_file w)
   \<and> ((\<forall>c. fst (get_credentials_dict lib w) \<noteq> Inr (Some c))
     \<longrightarrow> token_file (snd (get_credentials_dict lib w)) = token_file w)
   \<and> (load_token lib w = Inr creds \<and> needs_auth creds \<and> refreshable creds = Some c
      \<and> refresh lib c = Inl e
     \<longrightarrow> get_credentials lib w = (Inl e, call Refresh w)
         \<and> get_credentials_dict lib w = (Inl e, call Refresh w))
   \<and> (load_token lib w = Inr creds \<and> needs_auth creds \<and> refreshable creds = None
      \<and> creds_file w = Some text \<and> from_client_secrets_file lib text = Inr flow
      \<and> run_local_server lib flow 0 = Inl e
     \<longrightarrow> get_credentials_dict lib w = (Inl e, call RunLocalServer w))
   \<and> (load_token lib w = Inr creds \<and> needs_auth creds \<and> refreshable creds = None
      \<and> creds_file w = Some text \<and> from_client_secrets_file lib text = Inl e
     \<longrightarrow> get_credentials_dict lib w = (Inl e, w))
   \<and> (load_token lib w = Inr creds \<and> needs_auth creds \<and> refreshable creds = None
      \<and> creds_file w = None
     \<longrightarrow> get_credentials_dict lib w = (Inr None, say MissingCredentialsFile w))
   \<and> (load_token lib w = Inr creds \<and> needs_auth creds \<and> refreshable creds = None
      \<and> creds_file w = Some text \<and> json_load lib text = Inr ads_creds
      \<and> map_of ads_creds ''client_id'' = Some cid
      \<and> map_of ads_creds ''client_secret'' = Some secret
      \<and> from_client_config lib \<lparr>client_id = cid, client_secret = secret\<rparr> = Inr flow
      \<and> run_local_server lib flow 8080 = Inl e
     \<longrightarrow> get_credentials lib w = (Inl e, call RunLocalServer w))
   \<and> (load_token lib w = Inr creds \<and> needs_auth creds \<and> refreshable creds = None
      \<and> creds_file w = None
     \<longrightarrow> get_credentials lib w = (Inl (FileNotFoundError ''google-ads.json''), w))
   \<and> (load_token lib w = Inr creds \<and> needs_auth creds \<and> refreshable creds = None
      \<and> creds_file w = Some text \<and> json_load lib text = Inl e
     \<longrightarrow> get_credentials lib w = (Inl e, w))
   \<and> (load_token lib w = Inr creds \<and> needs_auth creds \<and> refreshable creds = None
      \<and> creds_file w = Some text \<and> json_load lib text = Inr ads_creds
      \<and> map_of ads_creds ''client_id'' = None
     \<longrightarrow> get_credentials lib w = (Inl (KeyError ''client_id''), w))
   \<and> (load_token lib w = Inr creds \<and> needs_auth creds \<and> refreshable creds = None
      \<and> creds_file w = Some text \<and> json_load lib text = Inr ads_creds
      \<and> map_of ads_creds ''client_id'' = Some cid
      \<and> map_of ads_creds ''client_secret'' = None
     \<longrightarrow> get_credentials lib w = (Inl (KeyError ''client_secret''), w))
   \<and> (load_token lib w = Inr creds \<and> needs_auth creds \<and> refreshable creds = None
      \<and> creds_file w = Some text \<and> json_load lib text = Inr ads_creds
      \<and> map_of ads_creds ''client_id'' = Some cid
      \<and> map_of ads_creds ''client_secret'' = Some secret
      \<and> from_client_config lib \<lparr>client_id = cid, client_secret = secret\<rparr> = Inl e
     \<longrightarrow> get_credentials lib w = (Inl e, w))
   \<and> (load_token lib w = Inl e
     \<longrightarrow> get_credentials lib w = (Inl e, w) \<and> get_credentials_dict lib w = (Inl e, w))"
  apply (rule conjI)
   apply (intro impI, elim conjE, rule refresh_ok; assumption)
  apply (rule conjI)
   apply (intro impI, elim conjE, rule flow_ok_dict; assumption)
  apply (rule conjI)
   apply (intro impI, elim conjE, rule flow_ok; assumption)
  apply (rule conjI)
   apply (rule impI, rule no_credential_no_write, assumption)
  apply (rule conjI)
   apply (rule impI, rule no_credential_no_write_dict, assumption)
  apply (rule conjI)
   apply (intro impI, elim conjE, rule refresh_raises; assumption)
  apply (rule conjI)
   apply (intro impI, elim conjE, rule flow_raises_dict; assumption)
  apply (rule conjI)
   apply (intro impI, elim conjE, rule secrets_unreadable_dict; assumption)
  apply (rule conjI)
   apply (intro impI, elim conjE, rule secrets_missing_dict; assumption)
  apply (rule conjI)
   apply (intro impI, elim conjE, rule flow_raises; assumption)
  apply (rule conjI)
   apply (intro impI, elim conjE, rule secrets_missing; assumption)
  apply (rule conjI)
   apply (intro impI, elim conjE, rule secrets_unreadable; assumption)
  apply (rule conjI)
   apply (intro impI, elim conjE, rule client_id_missing; assumption)
  apply (rule conjI)
   apply (intro impI, elim conjE, rule client_secret_missing; assumption)
  apply (rule conjI)
   apply (intro impI, elim conjE, rule client_config_refused; assumption)
  apply (rule impI, rule token_unreadable, assumption)
  done

text \<open>
  The theorem at work: an expired token with a refresh token is refreshed and written, a
  missing token with a client secret is obtained through the flow and written, and with a
  service whose refresh and flow raise, the exception is the result and nothing is written.
\<close>

theorem token_written_on_success_witness:
  "token_file (snd (get_credentials example_oauth
                     ((start fresh_remote)\<lparr>token_file := Some ''expired:old''\<rparr>))) = Some ''fresh''
   \<and> calls (snd (get_credentials_dict example_oauth
                     ((start fresh_remote)\<lparr>token_file := Some ''expired:old''\<rparr>))) = [Refresh]
   \<and> token_file (snd (get_credentials_dict example_oauth
                     ((start fresh_remote)\<lparr>creds_file := Some ''cid''\<rparr>))) = Some ''granted''
   \<and> calls (snd (get_credentials example_oauth
                     ((start fresh_remote)\<lparr>creds_file := Some ''cid''\<rparr>))) = [RunLocalServer]
   \<and> token_file (snd (get_credentials_dict example_oauth (start fresh_remote))) = None
   \<and> get_credentials failing_oauth ((start fresh_remote)\<lparr>token_file := Some ''expired:old''\<rparr>)
       = (Inl (Raised ''RefreshError'' ''invalid_grant''),
          call Refresh ((start fresh_remote)\<lparr>token_file := Some ''expired:old''\<rparr>))
   \<and> get_credentials_dict failing_oauth ((start fresh_remote)\<lparr>creds_file := Some ''cid''\<rparr>)
       = (Inl (Raised ''AccessDeniedError'' ''access_denied''),
          call RunLocalServer ((start fresh_remote)\<lparr>creds_file := Some ''cid''\<rparr>))
   \<and> get_credentials failing_oauth ((start fresh_remote)\<lparr>creds_file := Some ''cid''\<rparr>)
       = (Inl (Raised ''AccessDeniedError'' ''access_denied''),
          call RunLocalServer ((start fresh_remote)\<lparr>creds_file := Some ''cid''\<rparr>))"
proof -
  let ?wr = "(start fresh_remote)\<lparr>token_file := Some ''expired:old''\<rparr>"
  let ?wf = "(start fresh_remote)\<lparr>creds_file := Some ''cid''\<rparr>"
  let ?old = "\<lparr>token = ''old'', refresh_token = Some ''r1'', valid = False, expired = True\<rparr>"
  let ?fresh = "\<lparr>token = ''fresh'', refresh_token = Some ''r1'', valid = True, expired = False\<rparr>"
  let ?granted = "\<lparr>token = ''granted'', refresh_token = Some ''r2'', valid = True, expired = False\<rparr>"
  let ?cfg = "\<lparr>client_id = ''cid'', client_secret = ''s''\<rparr>"
  have r1: "load_token example_oauth ?wr = Inr (Some ?old)"
    and r2: "needs_auth (Some ?old)" and r3: "refreshable (Some ?old) = Some ?old"
    and r4: "refresh example_oauth ?old = Inr ?fresh"
    and r1': "load_token failing_oauth ?wr = Inr (Some ?old)"
    and r4': "refresh failing_oauth ?old = Inl (Raised ''RefreshError'' ''invalid_grant'')"
    by code_simp+
  have f1: "load_token example_oauth ?wf = Inr None"
    and f2: "needs_auth None" and f3: "refreshable None = None"
    and f4: "creds_file ?wf = Some ''cid''"
    and f5: "from_client_secrets_file example_oauth ''cid'' = Inr ?cfg"
    and f6: "run_local_server example_oauth ?cfg 0 = Inr ?granted"
    and g5: "json_load example_oauth ''cid'' = Inr [(''client_id'', ''cid''), (''client_secret'', ''s'')]"
    and g6: "map_of [(''client_id'', ''cid''), (''client_secret'', ''s'')] ''client_id'' = Some ''cid''"
    and g7: "map_of [(''client_id'', ''cid''), (''client_secret'', ''s'')] ''client_secret'' = Some ''s''"
    and g8: "from_client_config example_oauth ?cfg = Inr ?cfg"
    and g9: "run_local_server example_oauth ?cfg 8080 = Inr ?granted"
    by code_simp+
  have f1': "load_token failing_oauth ?wf = Inr None"
    and f5': "from_client_secrets_file failing_oauth ''cid'' = Inr ?cfg"
    and f6': "run_local_server failing_oauth ?cfg 0 = Inl (Raised ''AccessDeniedError'' ''access_denied'')"
    and g5': "json_load failing_oauth ''cid'' = Inr [(''client_id'', ''cid''), (''client_secret'', ''s'')]"
    and g8': "from_client_config failing_oauth ?cfg = Inr ?cfg"
    and g9': "run_local_server failing_oauth ?cfg 8080 = Inl (Raised ''AccessDeniedError'' ''access_denied'')"
    by code_simp+
  have n1: "fst (get_credentials_dict example_oauth (start fresh_remote)) = Inr None"
    by code_simp
  have n2: "\<forall>c. fst (get_credentials_dict example_oauth (start fresh_remote)) \<noteq> Inr (Some c)"
    unfolding n1 by simp
  have e1: "to_json example_oauth ?fresh = ''fresh''"
    and e2: "to_json example_oauth ?granted = ''granted''"
    and e3: "calls ?wr @ [Refresh] = [Refresh]"
    and e4: "calls ?wf @ [RunLocalServer] = [RunLocalServer]"
    and e5: "token_file (start fresh_remote) = None"
    by code_simp+
  note t1 = token_written_on_success [THEN conjunct2]
  note t2 = t1 [THEN conjunct2]
  note t3 = t2 [THEN conjunct2]
  note t4 = t3 [THEN conjunct2]
  note t5 = t4 [THEN conjunct2]
  note t6 = t5 [THEN conjunct2]
  note t7 = t6 [THEN conjunct2]
  note t8 = t7 [THEN conjunct2]
  note t9 = t8 [THEN conjunct2]
  note a = token_written_on_success [THEN conjunct1, THEN mp,
             OF conjI [OF r1 conjI [OF r2 conjI [OF r3 r4]]]]
  note b = t1 [THEN conjunct1, THEN mp,
             OF conjI [OF f1 conjI [OF f2 conjI [OF f3 conjI [OF f4 conjI [OF f5 f6]]]]]]
  note c = t2 [THEN conjunct1, THEN mp,
             OF conjI [OF f1 conjI [OF f2 conjI [OF f3 conjI [OF f4 conjI [OF g5
                conjI [OF g6 conjI [OF g7 conjI [OF g8 g9]]]]]]]]]
  note d = t4 [THEN conjunct1, THEN mp, OF n2]
  have s1: "token_file (snd (get_credentials example_oauth ?wr)) = Some ''fresh''"
    using a [THEN conjunct2, THEN conjunct1] unfolding e1 .
  have s2: "calls (snd (get_credentials_dict example_oauth ?wr)) = [Refresh]"
    using a [THEN conjunct2, THEN conjunct2, THEN conjunct2, THEN conjunct2, THEN conjunct2]
    unfolding e3 .
  have s3: "token_file (snd (get_credentials_dict example_oauth ?wf)) = Some ''granted''"
    using b [THEN conjunct2, THEN conjunct1] unfolding e2 .
  have s4: "calls (snd (get_credentials example_oauth ?wf)) = [RunLocalServer]"
    using c [THEN conjunct2, THEN conjunct2] unfolding e4 .
  have s5: "token_file (snd (get_credentials_dict example_oauth (start fresh_remote))) = None"
    using d unfolding e5 .
  have s6: "get_credentials failing_oauth ?wr
       = (Inl (Raised ''RefreshError'' ''invalid_grant''), call Refresh ?wr)"
    using t5 [THEN conjunct1, THEN mp, OF conjI [OF r1' conjI [OF r2 conjI [OF r3 r4']]],
            THEN conjunct1] .
  have s7: "get_credentials_dict failing_oauth ?wf
       = (Inl (Raised ''AccessDeniedError'' ''access_denied''), call RunLocalServer ?wf)"
    using t6 [THEN conjunct1, THEN mp,
            OF conjI [OF f1' conjI [OF f2 conjI [OF f3 conjI [OF f4 conjI [OF f5' f6']]]]]] .
  have s8: "get_credentials failing_oauth ?wf
       = (Inl (Raised ''AccessDeniedError'' ''access_denied''), call RunLocalServer ?wf)"
    using t9 [THEN conjunct1, THEN mp,
            OF conjI [OF f1' conjI [OF f2 conjI [OF f3 conjI [OF f4 conjI [OF g5'
               conjI [OF g6 conjI [OF g7 conjI [OF g8' g9']]]]]]]]] .
  show ?thesis
    by (rule conjI [OF s1 conjI [OF s2 conjI [OF s3 conjI [OF s4 conjI [OF s5 conjI [OF s6
          conjI [OF s7 s8]]]]]]])
qed

section \<open>Failures of remote calls\<close>

lemma pair_with_fst: "fst x = a \<Longrightarrow> x = (a, snd x)"
  by (cases x) simp

lemma add_site_calls:
  "calls (snd (add_site api url w)) = calls w @ [SitesAdd url]"
  "calls (snd (add_site_dict api url w)) = calls w @ [SitesAdd url]"
  by (simp_all add: add_site_def add_site_dict_def Let_def split: prod.splits sum.splits)

lemma check_site_calls: "calls (check_site api url w) = calls w @ [SitesGet url]"
  by (simp add: check_site_def Let_def split: sum.splits)

lemma add_site_returns:
  assumes "sites_raise_exceptions api"
  shows "fst (add_site api url w) = Inr ()" "fst (add_site_dict api url w) = Inr ()"
  using assms
  by (auto simp add: add_site_def add_site_dict_def sites_raise_exceptions_def Let_def
        split: prod.splits sum.splits)

lemma search_console_loop_returns:
  assumes "sites_raise_exceptions api"
  shows "fst (search_console_loop api ds w) = Inr ()
         \<and> calls (snd (search_console_loop api ds w))
             = calls w @ concat (map (\<lambda>d. [SitesAdd (site_url d), SitesGet (site_url d)]) ds)"
proof (induction ds arbitrary: w)
  case Nil
  show ?case by simp
next
  case (Cons d ds)
  obtain w' where a: "add_site api (site_url d) w = (Inr (), w')"
    by (rule that [OF pair_with_fst [OF add_site_returns(1) [OF assms]]])
  have c: "calls w' = calls w @ [SitesAdd (site_url d)]"
    using add_site_calls(1) [of api "site_url d" w] unfolding a by simp
  show ?case
    using Cons.IH [of "check_site api (site_url d) w'"] by (simp add: a c check_site_calls)
qed

lemma search_console_loop_dict_returns:
  assumes "sites_raise_exceptions api"
  shows "fst (search_console_loop_dict api ds w) = Inr ()
         \<and> calls (snd (search_console_loop_dict api ds w))
             = calls w @ concat (map (\<lambda>d. [SitesAdd (site_url d), SitesGet (site_url d)]) ds)"
proof (induction ds arbitrary: w)
  case Nil
  show ?case by simp
next
  case (Cons d ds)
  obtain w' where a: "add_site_dict api (site_url d) w = (Inr (), w')"
    by (rule that [OF pair_with_fst [OF add_site_returns(2) [OF assms]]])
  have c: "calls w' = calls w @ [SitesAdd (site_url d)]"
    using add_site_calls(2) [of api "site_url d" w] unfolding a by simp
  show ?case
    using Cons.IH [of "check_site api (site_url d) w'"] by (simp add: a c check_site_calls)
qed

lemma search_console_loops_return:
  assumes "sites_raise_exceptions api"
  shows "fst (search_console_loop api ds w) = Inr ()
         \<and> calls (snd (search_console_loop api ds w))
             = calls w @ concat (map (\<lambda>d. [SitesAdd (site_url d), SitesGet (site_url d)]) ds)
         \<and> fst (search_console_loop_dict api ds w) = Inr ()
         \<and> calls (snd (search_console_loop_dict api ds w))
             = calls w @ concat (map (\<lambda>d. [SitesAdd (site_url d), SitesGet (site_url d)]) ds)"
  using search_console_loop_returns [OF assms, of ds w]
    search_console_loop_dict_returns [OF assms, of ds w]
  by simp

lemma setup_search_console_returns:
  assumes "sites_raise_exceptions api" and "build_error api ''searchconsole'' = None"
  shows "fst (setup_search_console api w) = Inr ()
         \<and> calls (snd (setup_search_console api w))
             = calls w @ Build ''searchconsole''
                 # concat (map (\<lambda>d. [SitesAdd (site_url d), SitesGet (site_url d)]) DOMAINS)
         \<and> fst (setup_search_console_dict api w) = Inr (Some True)
         \<and> calls (snd (setup_search_console_dict api w))
             = calls w @ Build ''searchconsole''
                 # concat (map (\<lambda>d. [SitesAdd (site_url d), SitesGet (site_url d)]) DOMAINS)"
proof -
  let ?w1 = "call (Build ''searchconsole'') w"
  note g = search_console_loop_returns [OF assms(1), of DOMAINS ?w1]
  note d = search_console_loop_dict_returns [OF assms(1), of DOMAINS ?w1]
  have g': "setup_search_console api w = search_console_loop api DOMAINS ?w1"
    using assms(2) by (simp add: setup_search_console_def)
  have t: "setup_search_console_try api w
             = (Inr (Some True), snd (search_console_loop_dict api DOMAINS ?w1))"
    using assms(2) d [THEN conjunct1]
    by (cases "search_console_loop_dict api DOMAINS ?w1") (simp add: setup_search_console_try_def)
  have d': "setup_search_console_dict api w
             = (Inr (Some True), snd (search_console_loop_dict api DOMAINS ?w1))"
    by (simp add: setup_search_console_dict_def t)
  show ?thesis
    unfolding g' d' using g d by simp
qed

lemma registration_caught_next_domain:
  assumes "sites_add api (remote w) (site_url d) = (Inl e, r')" and "is_exception e"
  shows "search_console_loop api (d # rest) w
           = search_console_loop api rest
               (check_site api (site_url d)
                  (say (if contains (lower (str_exc e)) ''already''
                        then AlreadyExists (site_url d) else ErrorLine e)
                     ((call (SitesAdd (site_url d)) w)\<lparr>remote := r'\<rparr>)))
         \<and> search_console_loop_dict api (d # rest) w
           = search_console_loop_dict api rest
               (check_site api (site_url d)
                  (say (if contains (lower (str_exc e)) ''already exists'' \<or> contains (str_exc e) ''403''
                        then AlreadyExistsOrDenied else ErrorLine e)
                     ((call (SitesAdd (site_url d)) w)\<lparr>remote := r'\<rparr>)))"
  using assms by (simp add: add_site_def add_site_dict_def)

lemma lookup_failure_dropped:
  assumes "sites_get api (remote w) url = Inl e"
  shows "check_site api url w = call (SitesGet url) w"
  using assms by (simp add: check_site_def)

lemma interrupt_ends_search_console:
  assumes "sites_add api (remote w) (site_url d) = (Inl e, r')" and "\<not> is_exception e"
  shows "search_console_loop api (d # rest) w
           = (Inl e, (call (SitesAdd (site_url d)) w)\<lparr>remote := r'\<rparr>)
         \<and> search_console_loop_dict api (d # rest) w
           = (Inl e, (call (SitesAdd (site_url d)) w)\<lparr>remote := r'\<rparr>)"
  using assms by (simp add: add_site_def add_site_dict_def)

lemma property_listing_fails:
  assumes "list_properties api (remote w) (''parent:'' @ acct_name account) = Inl e"
  shows "analytics_loop api account (d # rest) mids w
           = (Inl e, call (ListProperties (''parent:'' @ acct_name account)) w)"
  using assms by (simp add: analytics_domain_def ensure_property_def)

lemma property_listing_fails_dict:
  assumes "properties_list api (remote w) (''parent:'' @ account_name) = Inl e"
  shows "analytics_loop_dict api account_name (d # rest) mids w
           = (Inl e, call (ListProperties (''parent:'' @ account_name)) w)"
  using assms by (simp add: analytics_domain_dict_def ensure_property_dict_def)

lemma property_creation_fails:
  assumes "list_properties api (remote w) (''parent:'' @ acct_name account) = Inr ps"
    and "find (property_matches d) ps = None"
    and "create_property api (remote w) (new_property d) (acct_name account) = (Inl e, r')"
  shows "analytics_loop api account (d # rest) mids w
           = (Inl e, (call (CreateProperty (''British Pennies ('' @ d @ '')'') (acct_name account))
                        (call (ListProperties (''parent:'' @ acct_name account)) w))\<lparr>remote := r'\<rparr>)"
proof -
  let ?w1 = "call (ListProperties (''parent:'' @ acct_name account)) w"
  have c: "create_property api (remote ?w1) (new_property d) (acct_name account) = (Inl e, r')"
    using assms(3) by simp
  have "ensure_property api account d w = create_new_property api account d ?w1"
    using assms(1,2) by (simp add: ensure_property_def)
  then show ?thesis
    unfolding create_new_property_eq [OF c] by (simp add: analytics_domain_def)
qed

lemma property_creation_fails_dict:
  assumes "properties_list api (remote w) (''parent:'' @ account_name) = Inr pds"
    and "find (property_dict_matches d) pds = None"
    and "properties_create api (remote w) (new_property d) account_name = (Inl e, r')"
  shows "analytics_loop_dict api account_name (d # rest) mids w
           = (Inl e, (call (CreateProperty (''British Pennies ('' @ d @ '')'') account_name)
                        (call (ListProperties (''parent:'' @ account_name)) w))\<lparr>remote := r'\<rparr>)"
proof -
  have n: "prop_display_name (new_property d) = ''British Pennies ('' @ d @ '')''"
    by (simp add: new_property_def)
  have "ensure_property_dict api account_name d w
          = create_property_dict api account_name d
              (call (ListProperties (''parent:'' @ account_name)) w)"
    using assms(1,2) by (simp add: ensure_property_dict_def)
  then show ?thesis
    using assms(3) by (simp add: analytics_domain_dict_def create_property_dict_def n)
qed

lemma stream_listing_fails:
  assumes "ensure_property api account d w = (Inr p, w1)"
    and "list_data_streams api (remote w1) (prop_name p) = Inl e"
  shows "analytics_loop api account (d # rest) mids w
           = (Inl e, call (ListDataStreams (prop_name p)) w1)"
  using assms by (simp add: analytics_domain_def ensure_stream_def)

lemma stream_listing_fails_dict:
  assumes "ensure_property_dict api account_name d w = (Inr pname, w1)"
    and "dataStreams_list api (remote w1) pname = Inl e"
  shows "analytics_loop_dict api account_name (d # rest) mids w
           = (Inl e, call (ListDataStreams pname) w1)"
  using assms by (simp add: analytics_domain_dict_def ensure_stream_dict_def)

lemma stream_creation_fails:
  assumes "ensure_property api account d w = (Inr p, w1)"
    and "list_data_streams api (remote w1) (prop_name p) = Inr ss"
    and "find has_web_stream_data ss = None"
    and "create_data_stream api (remote w1) (prop_name p) (new_data_stream d) = (Inl e, r')"
  shows "analytics_loop api account (d # rest) mids w
           = (Inl e, (call (CreateDataStream (prop_name p) (''https://'' @ d))
                        (call (ListDataStreams (prop_name p)) w1))\<lparr>remote := r'\<rparr>)"
proof -
  have u: "default_uri (web_stream_data (new_data_stream d)) = ''https://'' @ d"
    by (simp add: new_data_stream_def)
  show ?thesis
    using assms by (simp add: analytics_domain_def ensure_stream_def u)
qed

lemma stream_creation_fails_dict:
  assumes "ensure_property_dict api account_name d w = (Inr pname, w1)"
    and "dataStreams_list api (remote w1) pname = Inr sds"
    and "find (stream_dict_matches d) sds = None"
    and "dataStreams_create api (remote w1) pname (new_data_stream d) = (Inl e, r')"
  shows "analytics_loop_dict api account_name (d # rest) mids w
           = (Inl e, (call (CreateDataStream pname (''https://'' @ d))
                        (call (ListDataStreams pname) w1))\<lparr>remote := r'\<rparr>)"
proof -
  have u: "default_uri (web_stream_data (new_data_stream d)) = ''https://'' @ d"
    by (simp add: new_data_stream_def)
  show ?thesis
    using assms by (simp add: analytics_domain_dict_def ensure_stream_dict_def u)
qed

lemma analytics_loop_append:
  "analytics_loop api account ds1 mids w = (Inr m1, w1)
   \<Longrightarrow> analytics_loop api account (ds1 @ ds2) mids w = analytics_loop api account ds2 m1 w1"
  by (induction ds1 arbitrary: mids w) (auto split: prod.splits sum.splits)

lemma analytics_loop_dict_append:
  "analytics_loop_dict api account_name ds1 mids w = (Inr m1, w1)
   \<Longrightarrow> analytics_loop_dict api account_name (ds1 @ ds2) mids w
       = analytics_loop_dict api account_name ds2 m1 w1"
  by (induction ds1 arbitrary: mids w) (auto split: prod.splits sum.splits)

lemma analytics_loops_append:
  assumes "analytics_loop api account ds1 mids w = (Inr m1, w1)"
    and "analytics_loop_dict api account_name ds1 mids' w' = (Inr m1', w1')"
  shows "analytics_loop api account (ds1 @ ds2) mids w = analytics_loop api account ds2 m1 w1
         \<and> analytics_loop_dict api account_name (ds1 @ ds2) mids' w'
           = analytics_loop_dict api account_name ds2 m1' w1'"
  using analytics_loop_append [OF assms(1)] analytics_loop_dict_append [OF assms(2)] by simp

lemma setup_analytics_raises:
  assumes "list_accounts api (remote w) = Inr (account # others)"
    and "analytics_loop api account DOMAINS []
           (say (UsingAccount (acct_display_name account)) (call ListAccounts w)) = (Inl e, w')"
  shows "setup_analytics api w = (Inl e, w')"
  using assms by (simp add: setup_analytics_def)

lemma setup_analytics_dict_handler:
  assumes "build_error api ''analyticsadmin'' = None"
    and "accounts_list api (remote w) = Inr (account # others)"
    and "ad_name account = Some account_name"
    and "analytics_loop_dict api account_name DOMAINS []
           (say (UsingAccount (case ad_displayName account of None \<Rightarrow> account_name | Some dn \<Rightarrow> dn))
              (call ListAccounts (call (Build ''analyticsadmin'') w))) = (Inl e, w')"
  shows "setup_analytics_dict api w
           = (if is_exception e then (Inr None, say (AnalyticsSetupError e) w') else (Inl e, w'))"
  using assms by (simp add: setup_analytics_dict_def setup_analytics_try_def)

lemma first_listing_fails:
  assumes "list_accounts api (remote w) = Inr (account # others)"
    and "list_properties api (remote w) (''parent:'' @ acct_name account) = Inl e"
  shows "setup_analytics api w
           = (Inl e, call (ListProperties (''parent:'' @ acct_name account))
                       (say (UsingAccount (acct_display_name account)) (call ListAccounts w)))"
proof -
  let ?w0 = "say (UsingAccount (acct_display_name account)) (call ListAccounts w)"
  have l: "list_properties api (remote ?w0) (''parent:'' @ acct_name account) = Inl e"
    using assms(2) by simp
  show ?thesis
    by (rule setup_analytics_raises [OF assms(1)])
       (unfold DOMAINS_def, rule property_listing_fails [OF l])
qed

lemma first_listing_fails_dict:
  assumes "build_error api ''analyticsadmin'' = None"
    and "accounts_list api (remote w) = Inr (account # others)"
    and "ad_name account = Some account_name"
    and "properties_list api (remote w) (''parent:'' @ account_name) = Inl e"
  shows "setup_analytics_dict api w
           = (if is_exception e
              then (Inr None,
                    say (AnalyticsSetupError e)
                      (call (ListProperties (''parent:'' @ account_name))
                         (say (UsingAccount (case ad_displayName account of
                                               None \<Rightarrow> account_name | Some dn \<Rightarrow> dn))
                            (call ListAccounts (call (Build ''analyticsadmin'') w)))))
              else (Inl e,
                    call (ListProperties (''parent:'' @ account_name))
                      (say (UsingAccount (case ad_displayName account of
                                            None \<Rightarrow> account_name | Some dn \<Rightarrow> dn))
                         (call ListAccounts (call (Build ''analyticsadmin'') w)))))"
proof -
  let ?w0 = "say (UsingAccount (case ad_displayName account of None \<Rightarrow> account_name | Some dn \<Rightarrow> dn))
               (call ListAccounts (call (Build ''analyticsadmin'') w))"
  have l: "properties_list api (remote ?w0) (''parent:'' @ account_name) = Inl e"
    using assms(4) by simp
  show ?thesis
    by (rule setup_analytics_dict_handler [OF assms(1,2,3)])
       (unfold DOMAINS_def, rule property_listing_fails_dict [OF l])
qed

lemma setup_search_console_dict_total:
  assumes "sites_raise_exceptions api" and "build_raises_exceptions api"
  shows "\<exists>res. fst (setup_search_console_dict api w) = Inr res"
proof (cases "build_error api ''searchconsole''")
  case None
  show ?thesis
    using setup_search_console_returns [OF assms(1) None, of w] by simp
next
  case (Some e)
  then have "is_exception e"
    using assms(2) by (simp add: build_raises_exceptions_def)
  then show ?thesis
    using Some by (simp add: setup_search_console_dict_def setup_search_console_try_def)
qed

lemma main_dict_after_failure:
  assumes "get_credentials_dict lib w = (Inr (Some c), w1)"
    and "setup_analytics_dict api (say AuthenticationSuccessful w1) = (Inr None, w2)"
    and "sites_raise_exceptions api" and "build_raises_exceptions api"
  shows "main_dict lib api w = (Inr (), say SetupComplete (snd (setup_search_console_dict api w2)))"
proof -
  obtain res where r: "fst (setup_search_console_dict api w2) = Inr res"
    using setup_search_console_dict_total [OF assms(3,4)] by blast
  obtain w3 where s: "setup_search_console_dict api w2 = (Inr res, w3)"
    by (rule that [OF pair_with_fst [OF r]])
  show ?thesis
    using assms(1,2) by (simp add: main_dict_def s save_ids_def)
qed

lemma main_after_failure:
  assumes "install_deps_error lib = None"
    and "get_credentials lib (call InstallDeps w) = (Inr (Some c), w1)"
    and "setup_analytics api (say AuthenticationSuccessful w1) = (Inl e, w2)"
  shows "main lib api w = (Inl e, w2)"
  using assms by (simp add: main_def)




section \<open>Resources that exist already\<close>

lemma analytics_domain_reuses:
  assumes "already_set_up api account (remote w) domain"
  shows "\<exists>m w'. analytics_domain api account domain mids w = (Inr m, w')
           \<and> remote w' = remote w
           \<and> filter is_creation (calls w') = filter is_creation (calls w)"
proof -
  from assms obtain ps where l: "list_properties api (remote w) (''parent:'' @ acct_name account) = Inr ps"
    by (auto simp add: already_set_up_def split: sum.splits)
  from assms l obtain p where f: "find (property_matches domain) ps = Some p"
    by (auto simp add: already_set_up_def split: option.splits)
  from assms l f have t: "property_truthy p"
    by (simp add: already_set_up_def)
  from assms l f obtain ss where ls: "list_data_streams api (remote w) (prop_name p) = Inr ss"
    by (auto simp add: already_set_up_def split: sum.splits)
  from assms l f ls obtain s where fs: "find has_web_stream_data ss = Some s"
    by (auto simp add: already_set_up_def)
  let ?w1 = "say (FoundProperty (prop_display_name p))
               (call (ListProperties (''parent:'' @ acct_name account)) w)"
  have ls1: "list_data_streams api (remote ?w1) (prop_name p) = Inr ss"
    using ls by simp
  have e1: "analytics_domain api account domain mids w = ensure_stream api p domain mids ?w1"
    by (simp add: analytics_domain_def ensure_property_found [OF l f t])
  note e2 = ensure_stream_found [OF ls1 fs, of domain mids]
  show ?thesis
    unfolding e1 e2 by simp
qed

lemma analytics_loop_reuses:
  assumes "\<forall>d \<in> set ds. already_set_up api account (remote w) d"
  shows "\<exists>m w'. analytics_loop api account ds mids w = (Inr m, w')
           \<and> remote w' = remote w
           \<and> filter is_creation (calls w') = filter is_creation (calls w)"
  using assms
proof (induction ds arbitrary: mids w)
  case Nil
  then show ?case by simp
next
  case (Cons d ds)
  from Cons.prems have "already_set_up api account (remote w) d" by simp
  from analytics_domain_reuses [OF this, of mids]
  obtain m1 w1 where s1: "analytics_domain api account d mids w = (Inr m1, w1)"
    and r1: "remote w1 = remote w"
    and c1: "filter is_creation (calls w1) = filter is_creation (calls w)"
    by blast
  from Cons.prems r1 have "\<forall>d \<in> set ds. already_set_up api account (remote w1) d" by simp
  from Cons.IH [OF this, of m1]
  obtain m2 w2 where s2: "analytics_loop api account ds m1 w1 = (Inr m2, w2)"
    and r2: "remote w2 = remote w1"
    and c2: "filter is_creation (calls w2) = filter is_creation (calls w1)"
    by blast
  from s1 s2 r1 r2 c1 c2 show ?case by simp
qed

lemma setup_analytics_reuses:
  assumes "list_accounts api (remote w) = Inr (account # others)"
    and "\<forall>d \<in> set DOMAINS. already_set_up api account (remote w) d"
  shows "(\<exists>m. fst (setup_analytics api w) = Inr (Some m))
         \<and> remote (snd (setup_analytics api w)) = remote w
         \<and> filter is_creation (calls (snd (setup_analytics api w))) = filter is_creation (calls w)"
proof -
  let ?w1 = "say (UsingAccount (acct_display_name account)) (call ListAccounts w)"
  from assms(2) have "\<forall>d \<in> set DOMAINS. already_set_up api account (remote ?w1) d" by simp
  from analytics_loop_reuses [OF this, of "[]"]
  obtain m w' where s: "analytics_loop api account DOMAINS [] ?w1 = (Inr m, w')"
    and r: "remote w' = remote ?w1"
    and c: "filter is_creation (calls w') = filter is_creation (calls ?w1)"
    by blast
  from assms(1) s have "setup_analytics api w = (Inr (Some m), w')"
    by (simp add: setup_analytics_def)
  with r c show ?thesis by simp
qed

lemma analytics_domain_dict_reuses:
  assumes "already_set_up_dict api account_name (remote w) domain"
  shows "\<exists>m w'. analytics_domain_dict api account_name domain mids w = (Inr m, w')
           \<and> remote w' = remote w
           \<and> filter is_creation (calls w') = filter is_creation (calls w)"
proof -
  from assms obtain pds where l: "properties_list api (remote w) (''parent:'' @ account_name) = Inr pds"
    by (auto simp add: already_set_up_dict_def split: sum.splits)
  from assms l obtain pd where f: "find (property_dict_matches domain) pds = Some pd"
    by (auto simp add: already_set_up_dict_def split: option.splits)
  from assms l f obtain dn where dn: "pd_displayName pd = Some dn"
    by (auto simp add: already_set_up_dict_def)
  from assms l f obtain n where n: "pd_name pd = Some n"
    by (auto simp add: already_set_up_dict_def split: option.splits)
  from assms l f n obtain sds where ls: "dataStreams_list api (remote w) n = Inr sds"
    by (auto simp add: already_set_up_dict_def split: sum.splits)
  from assms l f n ls obtain sd where fs: "find (stream_dict_matches domain) sds = Some sd"
    by (auto simp add: already_set_up_dict_def split: option.splits)
  from assms l f n ls fs obtain m where m: "stream_measurementId sd = Inr m"
    by (auto simp add: already_set_up_dict_def split: sum.splits)
  let ?w1 = "say (FoundProperty dn) (call (ListProperties (''parent:'' @ account_name)) w)"
  have ls1: "dataStreams_list api (remote ?w1) n = Inr sds"
    using ls by simp
  have e1: "analytics_domain_dict api account_name domain mids w
          = ensure_stream_dict api n domain mids ?w1"
    by (simp add: analytics_domain_dict_def ensure_property_dict_found [OF l f dn n])
  note e2 = ensure_stream_dict_found [OF ls1 fs m, of mids]
  show ?thesis
    unfolding e1 e2 by simp
qed

lemma analytics_loop_dict_reuses:
  assumes "\<forall>d \<in> set ds. already_set_up_dict api account_name (remote w) d"
  shows "\<exists>m w'. analytics_loop_dict api account_name ds mids w = (Inr m, w')
           \<and> remote w' = remote w
           \<and> filter is_creation (calls w') = filter is_creation (calls w)"
  using assms
proof (induction ds arbitrary: mids w)
  case Nil
  then show ?case by simp
next
  case (Cons d ds)
  from Cons.prems have "already_set_up_dict api account_name (remote w) d" by simp
  from analytics_domain_dict_reuses [OF this, of mids]
  obtain m1 w1 where s1: "analytics_domain_dict api account_name d mids w = (Inr m1, w1)"
    and r1: "remote w1 = remote w"
    and c1: "filter is_creation (calls w1) = filter is_creation (calls w)"
    by blast
  from Cons.prems r1 have "\<forall>d \<in> set ds. already_set_up_dict api account_name (remote w1) d"
    by simp
  from Cons.IH [OF this, of m1]
  obtain m2 w2 where s2: "analytics_loop_dict api account_name ds m1 w1 = (Inr m2, w2)"
    and r2: "remote w2 = remote w1"
    and c2: "filter is_creation (calls w2) = filter is_creation (calls w1)"
    by blast
  from s1 s2 r1 r2 c1 c2 show ?case by simp
qed

lemma setup_analytics_dict_reuses:
  assumes "build_error api ''analyticsadmin'' = None"
    and "accounts_list api (remote w) = Inr (account # others)"
    and "ad_name account = Some account_name"
    and "\<forall>d \<in> set DOMAINS. already_set_up_dict api account_name (remote w) d"
  shows "(\<exists>m. fst (setup_analytics_dict api w) = Inr (Some m))
         \<and> remote (snd (setup_analytics_dict api w)) = remote w
         \<and> filter is_creation (calls (snd (setup_analytics_dict api w)))
             = filter is_creation (calls w)"
proof -
  let ?w1 = "say (UsingAccount (case ad_displayName account of
                                  None \<Rightarrow> account_name | Some dn \<Rightarrow> dn))
               (call ListAccounts (call (Build ''analyticsadmin'') w))"
  from assms(4) have "\<forall>d \<in> set DOMAINS. already_set_up_dict api account_name (remote ?w1) d"
    by simp
  from analytics_loop_dict_reuses [OF this, of "[]"]
  obtain m w' where s: "analytics_loop_dict api account_name DOMAINS [] ?w1 = (Inr m, w')"
    and r: "remote w' = remote ?w1"
    and c: "filter is_creation (calls w') = filter is_creation (calls ?w1)"
    by blast
  from assms(1,2,3) s have "setup_analytics_try api w = (Inr (Some m), w')"
    by (simp add: setup_analytics_try_def)
  then have "setup_analytics_dict api w = (Inr (Some m), w')"
    by (simp add: setup_analytics_dict_def)
  with r c show ?thesis by simp
qed


lemma ensure_property_reuses:
  assumes "list_properties api (remote w) (''parent:'' @ acct_name account) = Inr ps"
    and "find (property_matches domain) ps = Some p" and "property_truthy p"
  shows "fst (ensure_property api account domain w) = Inr p
         \<and> calls (snd (ensure_property api account domain w))
             = calls w @ [ListProperties (''parent:'' @ acct_name account)]
         \<and> remote (snd (ensure_property api account domain w)) = remote w"
  unfolding ensure_property_found [OF assms] by simp

lemma ensure_stream_reuses:
  assumes "list_data_streams api (remote w) (prop_name p) = Inr ss"
    and "find has_web_stream_data ss = Some s"
  shows "fst (ensure_stream api p domain mids w)
           = Inr (AList.update domain (measurement_id (web_stream_data s)) mids)
         \<and> calls (snd (ensure_stream api p domain mids w)) = calls w @ [ListDataStreams (prop_name p)]
         \<and> remote (snd (ensure_stream api p domain mids w)) = remote w"
  unfolding ensure_stream_found [OF assms] by simp

lemma ensure_property_dict_reuses:
  assumes "properties_list api (remote w) (''parent:'' @ account_name) = Inr pds"
    and "find (property_dict_matches domain) pds = Some pd"
    and "pd_displayName pd = Some dn" and "pd_name pd = Some n"
  shows "fst (ensure_property_dict api account_name domain w) = Inr n
         \<and> calls (snd (ensure_property_dict api account_name domain w))
             = calls w @ [ListProperties (''parent:'' @ account_name)]
         \<and> remote (snd (ensure_property_dict api account_name domain w)) = remote w"
  unfolding ensure_property_dict_found [OF assms] by simp

lemma ensure_stream_dict_reuses:
  assumes "dataStreams_list api (remote w) pname = Inr sds"
    and "find (stream_dict_matches domain) sds = Some sd"
    and "stream_measurementId sd = Inr m"
  shows "fst (ensure_stream_dict api pname domain mids w) = Inr (AList.update domain m mids)
         \<and> calls (snd (ensure_stream_dict api pname domain mids w)) = calls w @ [ListDataStreams pname]
         \<and> remote (snd (ensure_stream_dict api pname domain mids w)) = remote w"
  unfolding ensure_stream_dict_found [OF assms] by simp

lemma creations_of_site_calls:
  "filter is_creation (concat (map (\<lambda>d. [SitesAdd (site_url d), SitesGet (site_url d)]) ds))
     = map (\<lambda>d. SitesAdd (site_url d)) ds"
  by (induction ds) simp_all

lemma search_console_loop_creations:
  assumes "sites_raise_exceptions api"
  shows "filter is_creation (calls (snd (search_console_loop api ds w)))
           = filter is_creation (calls w) @ map (\<lambda>d. SitesAdd (site_url d)) ds
         \<and> filter is_creation (calls (snd (search_console_loop_dict api ds w)))
           = filter is_creation (calls w) @ map (\<lambda>d. SitesAdd (site_url d)) ds"
  using search_console_loop_returns [OF assms, of ds w]
    search_console_loop_dict_returns [OF assms, of ds w]
  by (simp add: creations_of_site_calls)

lemma registration_always_issued:
  "calls (snd (add_site api url w)) = calls w @ [SitesAdd url]
   \<and> calls (snd (add_site_dict api url w)) = calls w @ [SitesAdd url]"
  by (simp add: add_site_calls)

lemma setup_analytics_twice:
  assumes "list_accounts api (remote w) = Inr (account # others)"
    and "\<forall>d \<in> set DOMAINS. already_set_up api account (remote w) d"
  shows "remote (snd (setup_analytics api (snd (setup_analytics api w)))) = remote w
         \<and> filter is_creation (calls (snd (setup_analytics api (snd (setup_analytics api w)))))
             = filter is_creation (calls w)"
proof -
  let ?w' = "snd (setup_analytics api w)"
  note one = setup_analytics_reuses [OF assms]
  have r: "remote ?w' = remote w"
    using one by simp
  have a: "list_accounts api (remote ?w') = Inr (account # others)"
    unfolding r by (rule assms(1))
  have b: "\<forall>d \<in> set DOMAINS. already_set_up api account (remote ?w') d"
    unfolding r by (rule assms(2))
  note two = setup_analytics_reuses [OF a b]
  show ?thesis
    using one two by simp
qed

lemma setup_analytics_dict_twice:
  assumes "build_error api ''analyticsadmin'' = None"
    and "accounts_list api (remote w) = Inr (account # others)"
    and "ad_name account = Some account_name"
    and "\<forall>d \<in> set DOMAINS. already_set_up_dict api account_name (remote w) d"
  shows "remote (snd (setup_analytics_dict api (snd (setup_analytics_dict api w)))) = remote w
         \<and> filter is_creation
             (calls (snd (setup_analytics_dict api (snd (setup_analytics_dict api w)))))
             = filter is_creation (calls w)"
proof -
  let ?w' = "snd (setup_analytics_dict api w)"
  note one = setup_analytics_dict_reuses [OF assms]
  have r: "remote ?w' = remote w"
    using one by simp
  have a: "accounts_list api (remote ?w') = Inr (account # others)"
    unfolding r by (rule assms(2))
  have b: "\<forall>d \<in> set DOMAINS. already_set_up_dict api account_name (remote ?w') d"
    unfolding r by (rule assms(4))
  note two = setup_analytics_dict_reuses [OF assms(1) a assms(3) b]
  show ?thesis
    using one two by simp
qed




end
